theory Spec2Isabelle
  imports Complex_Main "HOL-Library.AList"
begin

section \<open>Values of the tick pipeline\<close>

text \<open>
  A Python \<open>datetime\<close> is an instant with microsecond resolution: the number of
  microseconds since a fixed epoch. A \<open>date\<close> is a day number. Prices are Python floats;
  they are modelled as reals (only comparisons, additions and copies of them occur).
\<close>

type_synonym datetime = nat
type_synonym date = nat

text \<open>
  \<open>t.strftime('%Y-%m-%d %H:%M:%S.%f')[:-3]\<close>: the six digits of \<open>%f\<close> lose their
  last three, so the text (and the TIMESTAMP value the store parses from it) is the
  instant truncated to whole milliseconds.
\<close>

definition strftime_ms :: "datetime \<Rightarrow> datetime" where
  "strftime_ms t = t - t mod 1000"

text \<open>\<open>str.lower()\<close> on ASCII text.\<close>

definition lower_char :: "char \<Rightarrow> char" where
  "lower_char c =
     (case map_of (zip ''ABCDEFGHIJKLMNOPQRSTUVWXYZ'' ''abcdefghijklmnopqrstuvwxyz'') c of
        Some l \<Rightarrow> l
      | None \<Rightarrow> c)"

definition lower :: "string \<Rightarrow> string" where
  "lower s = map lower_char s"

datatype error = KeyError | IndexError

section \<open>The instrument directory (module globals)\<close>

text \<open>
  The four global dicts of \<open>Kite_WebSocket.py\<close>. A Python dict keeps insertion order and
  two of them are iterated, so each is an association list; \<open>d.get(k)\<close> is \<open>map_of d k\<close>
  and \<open>d[k] = v\<close> is \<open>AList.update k v d\<close> (replace in place, else append).
\<close>

record details =
  det_strike :: real
  det_option_type :: string
  det_expiry :: date
  det_trade_symbol :: string

record directory =
  kite_instrument_mapping :: "(int \<times> string) list"
  kite_instrument_details :: "(string \<times> details) list"
  spot_instrument_tokens :: "(string \<times> int option) list"
  nearest_expiry_dates :: "(string \<times> date) list"

text \<open>
  The body of the loop over the nearest-expiry rows in \<open>parse_kite_instruments_multi\<close>
  (lines 297-314): both dicts are written for one CSV row
  \<open>(instrument_token, tradingsymbol, strike, instrument_type, expiry)\<close>.
\<close>

definition register_instrument ::
  "string \<Rightarrow> int \<times> string \<times> real \<times> string \<times> date \<Rightarrow> directory \<Rightarrow> directory" where
  "register_instrument tsym r dir =
     (case r of (tok, tradingsymbol, strike, instrument_type, expiry) \<Rightarrow>
        dir\<lparr>kite_instrument_mapping :=
              AList.update tok tradingsymbol (kite_instrument_mapping dir),
            kite_instrument_details :=
              AList.update tradingsymbol
                \<lparr>det_strike = strike, det_option_type = instrument_type,
                 det_expiry = expiry, det_trade_symbol = tsym\<rparr>
                (kite_instrument_details dir)\<rparr>)"

definition empty_directory :: directory where
  "empty_directory =
     \<lparr>kite_instrument_mapping = [], kite_instrument_details = [],
      spot_instrument_tokens = [], nearest_expiry_dates = []\<rparr>"

section \<open>The price table\<close>

text \<open>
  One row per symbol (the primary key); every other column of \<open>create_price_table\<close> is
  nullable.
\<close>

record row =
  price :: "real option"
  timestamp :: "datetime option"
  trade_symbol :: "string option"
  strike_price :: "real option"
  option_type :: "string option"
  source :: "string option"
  zerodha_price :: "real option"
  zerodha_timestamp :: "datetime option"
  instrument_token :: "int option"
  expiry_date :: "date option"

type_synonym table = "string \<rightharpoonup> row"

definition null_row :: row where
  "null_row =
     \<lparr>price = None, timestamp = None, trade_symbol = None, strike_price = None,
      option_type = None, source = None, zerodha_price = None, zerodha_timestamp = None,
      instrument_token = None, expiry_date = None\<rparr>"

text \<open>
  The SQL statements of the module, each as a function on the table.
  \<open>INSERT ... ON CONFLICT (symbol) DO UPDATE SET c = EXCLUDED.c\<close> inserts a row whose
  unnamed columns are null when the symbol is new and overwrites the listed columns
  otherwise.
\<close>

definition insert_zerodha ::
  "string \<Rightarrow> real option \<Rightarrow> datetime \<Rightarrow> int option \<Rightarrow> date option \<Rightarrow> table \<Rightarrow> table" where
  "insert_zerodha symb p ts tok ex tbl =
     (case tbl symb of
        None \<Rightarrow> tbl(symb \<mapsto> null_row\<lparr>zerodha_price := p, zerodha_timestamp := Some ts,
                                 instrument_token := tok, expiry_date := ex\<rparr>)
      | Some r \<Rightarrow> tbl(symb \<mapsto> r\<lparr>zerodha_price := p, zerodha_timestamp := Some ts,
                               instrument_token := tok, expiry_date := ex\<rparr>))"

definition insert_common ::
  "string \<Rightarrow> real option \<Rightarrow> datetime \<Rightarrow> int option \<Rightarrow> date option \<Rightarrow> table \<Rightarrow> table" where
  "insert_common symb p ts tok ex tbl =
     (case tbl symb of
        None \<Rightarrow> tbl(symb \<mapsto> null_row\<lparr>price := p, timestamp := Some ts,
                                 instrument_token := tok, expiry_date := ex\<rparr>)
      | Some r \<Rightarrow> tbl(symb \<mapsto> r\<lparr>price := p, timestamp := Some ts,
                               instrument_token := tok, expiry_date := ex\<rparr>))"

definition insert_bulk ::
  "string \<times> real option \<times> datetime \<times> date option \<Rightarrow> table \<Rightarrow> table" where
  "insert_bulk d tbl =
     (case d of (symb, p, ts, ex) \<Rightarrow>
        (case tbl symb of
           None \<Rightarrow> tbl(symb \<mapsto> null_row\<lparr>zerodha_price := p, zerodha_timestamp := Some ts,
                                    expiry_date := ex\<rparr>)
         | Some r \<Rightarrow> tbl(symb \<mapsto> r\<lparr>zerodha_price := p, zerodha_timestamp := Some ts,
                                  expiry_date := ex\<rparr>)))"

definition insert_spot ::
  "string \<Rightarrow> real option \<Rightarrow> datetime \<Rightarrow> string \<Rightarrow> string \<Rightarrow> date option \<Rightarrow> table \<Rightarrow> table" where
  "insert_spot symb p ts tsym src ex tbl =
     (case tbl symb of
        None \<Rightarrow> tbl(symb \<mapsto> null_row\<lparr>zerodha_price := p, zerodha_timestamp := Some ts,
                                 trade_symbol := Some tsym, source := Some src,
                                 expiry_date := ex\<rparr>)
      | Some r \<Rightarrow> tbl(symb \<mapsto> r\<lparr>zerodha_price := p, zerodha_timestamp := Some ts,
                               trade_symbol := Some tsym, source := Some src,
                               expiry_date := ex\<rparr>))"

text \<open>The bootstrap insert: on conflict the \<open>source\<close> column is not in the SET list.\<close>

definition insert_initial ::
  "string \<Rightarrow> string \<Rightarrow> real \<Rightarrow> string \<Rightarrow> int \<Rightarrow> string \<Rightarrow> date \<Rightarrow> table \<Rightarrow> table" where
  "insert_initial symb tsym strike otype tok src ex tbl =
     (case tbl symb of
        None \<Rightarrow> tbl(symb \<mapsto> null_row\<lparr>trade_symbol := Some tsym, strike_price := Some strike,
                                 option_type := Some otype, instrument_token := Some tok,
                                 source := Some src, expiry_date := Some ex\<rparr>)
      | Some r \<Rightarrow> tbl(symb \<mapsto> r\<lparr>trade_symbol := Some tsym, strike_price := Some strike,
                               option_type := Some otype, instrument_token := Some tok,
                               expiry_date := Some ex\<rparr>))"

text \<open>
  \<open>UPDATE t SET price = zerodha_price, timestamp = zerodha_timestamp
  WHERE symbol = %s AND zerodha_price IS NOT NULL\<close>.
\<close>

definition update_derived :: "string \<Rightarrow> table \<Rightarrow> table" where
  "update_derived symb tbl =
     (case tbl symb of
        None \<Rightarrow> tbl
      | Some r \<Rightarrow>
          (if zerodha_price r \<noteq> None
           then tbl(symb \<mapsto> r\<lparr>price := zerodha_price r, timestamp := zerodha_timestamp r\<rparr>)
           else tbl))"

section \<open>The world a consumer acts on\<close>

record tick_data =
  tick_instrument_token :: "int option"
  last_price :: "real option"
  exchange_timestamp :: "datetime option"

record tick =
  tick_source :: string
  tick_data :: tick_data
  queue_entry_time :: datetime

datatype statement =
    InsertZerodha string
  | InsertCommon string
  | InsertBulk string
  | InsertSpot string
  | InsertInitial string
  | UpdateDerived string
  | SelectPrice string

text \<open>
  What a consumer does to the queue and to the store, in the order it does it:
  \<open>get_nowait()\<close>, \<open>get(timeout=...)\<close>, \<open>psycopg2.connect\<close>, \<open>cursor.execute\<close>,
  \<open>cursor.executemany\<close>, \<open>conn.commit()\<close>, \<open>conn.rollback()\<close>, \<open>conn.close()\<close>.
\<close>

datatype event =
    GetNowait
  | GetTimeout real
  | Connect
  | Execute statement
  | ExecuteMany "statement list"
  | Commit
  | Rollback
  | Close

text \<open>\<open>float('inf')\<close>, the initial \<open>min_delay\<close>, next to the finite floats.\<close>

datatype delay_bound = Finite real | Infinity

fun bound_min :: "delay_bound \<Rightarrow> real \<Rightarrow> delay_bound" where
  "bound_min Infinity d = Finite d"
| "bound_min (Finite m) d = Finite (min m d)"

fun bound_le :: "delay_bound \<Rightarrow> delay_bound \<Rightarrow> bool" where
  "bound_le _ Infinity = True"
| "bound_le Infinity (Finite _) = False"
| "bound_le (Finite a) (Finite b) = (a \<le> b)"

record delay_statistics =
  count :: nat
  total_delay :: real
  min_delay :: delay_bound
  max_delay :: real

definition initial_delay_stats :: delay_statistics where
  "initial_delay_stats = \<lparr>count = 0, total_delay = 0, min_delay = Infinity, max_delay = 0\<rparr>"

record world =
  tick_queue :: "tick list"
  rows :: table
  delay_stats :: delay_statistics
  trace :: "event list"

type_synonym connection = unit

text \<open>
  \<open>if conn is None: conn = psycopg2.connect(...); close_conn = True\<close> at the head of
  every store operation, and the \<open>finally: if close_conn ...: conn.close()\<close> at its end.
\<close>

definition open_conn :: "connection option \<Rightarrow> world \<Rightarrow> world" where
  "open_conn conn w = (if conn = None then w\<lparr>trace := trace w @ [Connect]\<rparr> else w)"

definition close_conn :: "connection option \<Rightarrow> world \<Rightarrow> world" where
  "close_conn conn w = (if conn = None then w\<lparr>trace := trace w @ [Close]\<rparr> else w)"

section \<open>The persistence sink\<close>

text \<open>
  Every store operation below is the path on which its statements succeed; a failure of
  the database itself (lost connection, constraint error) is outside the model. The
  clock reading of \<open>datetime.now()\<close> is the parameter \<open>now\<close>.
\<close>

definition stamp :: "datetime \<Rightarrow> datetime option \<Rightarrow> datetime" where
  "stamp now ets = (case ets of Some t \<Rightarrow> strftime_ms t | None \<Rightarrow> strftime_ms now)"

text \<open>
  \<open>upsert_price\<close> (lines 379-459). The parameters \<open>strike_price\<close>, \<open>option_type\<close> and
  \<open>table_name\<close> do not reach any statement and are left out.
\<close>

definition upsert_price ::
  "directory \<Rightarrow> datetime \<Rightarrow> string \<Rightarrow> real option \<Rightarrow> string option \<Rightarrow> string \<Rightarrow>
   connection option \<Rightarrow> int option \<Rightarrow> datetime option \<Rightarrow> world \<Rightarrow> world" where
  "upsert_price dir now kite_symbol p tsym src conn kite_instrument_token ets w =
     (let ts = stamp now ets;
          symbol_expiry = map_option det_expiry (map_of (kite_instrument_details dir) kite_symbol);
          ex = (case symbol_expiry of
                  Some e \<Rightarrow> Some e
                | None \<Rightarrow> Option.bind tsym (map_of (nearest_expiry_dates dir)));
          w1 = open_conn conn w;
          w2 = (if lower src = ''zerodha''
                then w1\<lparr>rows := insert_zerodha kite_symbol p ts kite_instrument_token ex (rows w1),
                        trace := trace w1 @ [Execute (InsertZerodha kite_symbol)]\<rparr>
                else w1\<lparr>rows := insert_common kite_symbol p ts kite_instrument_token ex (rows w1),
                        trace := trace w1 @ [Execute (InsertCommon kite_symbol)]\<rparr>);
          w3 = w2\<lparr>rows := update_derived kite_symbol (rows w2),
                  trace := trace w2 @ [Execute (UpdateDerived kite_symbol), Commit]\<rparr>
      in close_conn conn w3)"

text \<open>
  \<open>upsert_price_bulk\<close> (lines 461-535). \<open>prices[i]\<close> and \<open>timestamps[i]\<close> raise
  IndexError when a list is shorter than \<open>kite_symbols\<close>; that happens while the bulk
  data is built, before any statement, and the handler rolls back and re-raises, so the
  caller keeps the store it had. For a symbol of the directory the expiry is its own
  (\<open>sym_expiry or ...\<close> takes the left operand, a date being truthy); for any other
  symbol \<open>details\<close> is \<open>{}\<close>, both \<open>get\<close>s give None and so does
  \<open>nearest_expiry_dates.get(None)\<close>.
\<close>

definition per_symbol_expiry :: "directory \<Rightarrow> string \<Rightarrow> date option" where
  "per_symbol_expiry dir symb =
     (case map_of (kite_instrument_details dir) symb of
        Some d \<Rightarrow> Some (det_expiry d)
      | None \<Rightarrow> None)"

definition upsert_price_bulk ::
  "directory \<Rightarrow> datetime \<Rightarrow> string list \<Rightarrow> real option list \<Rightarrow> datetime option list \<Rightarrow>
   string \<Rightarrow> connection option \<Rightarrow> world \<Rightarrow> error + world" where
  "upsert_price_bulk dir now kite_symbols prices exchange_timestamps src conn w =
     (if kite_symbols = [] then Inr w
      else
        let timestamps = map (stamp now) exchange_timestamps;
            per_symbol_expiries = map (per_symbol_expiry dir) kite_symbols;
            w1 = open_conn conn w
        in if lower src = ''zerodha'' then
             (if length prices < length kite_symbols \<or> length timestamps < length kite_symbols
              then Inl IndexError
              else
                let bulk_data = zip kite_symbols (zip prices (zip timestamps per_symbol_expiries));
                    w2 = w1\<lparr>rows := fold insert_bulk bulk_data (rows w1),
                            trace := trace w1 @ [ExecuteMany (map InsertBulk kite_symbols)]\<rparr>;
                    w3 = w2\<lparr>rows := fold update_derived kite_symbols (rows w2),
                            trace := trace w2 @ [ExecuteMany (map UpdateDerived kite_symbols),
                                                 Commit]\<rparr>
                in Inr (close_conn conn w3))
           else Inr (close_conn conn (w1\<lparr>trace := trace w1 @ [Commit]\<rparr>)))"

text \<open>\<open>upsert_spot_price\<close> (lines 537-597).\<close>

definition upsert_spot_price ::
  "directory \<Rightarrow> datetime \<Rightarrow> string \<Rightarrow> real option \<Rightarrow> string \<Rightarrow> string \<Rightarrow>
   connection option \<Rightarrow> datetime option \<Rightarrow> world \<Rightarrow> world" where
  "upsert_spot_price dir now spot_symbol p tsym src conn ets w =
     (let ts = stamp now ets;
          ex = map_of (nearest_expiry_dates dir) tsym;
          w1 = open_conn conn w;
          w2 = w1\<lparr>rows := insert_spot spot_symbol p ts tsym src ex (rows w1),
                  trace := trace w1 @ [Execute (InsertSpot spot_symbol)]\<rparr>;
          w3 = w2\<lparr>rows := update_derived spot_symbol (rows w2),
                  trace := trace w2 @ [Execute (UpdateDerived spot_symbol), Commit]\<rparr>
      in close_conn conn w3)"

text \<open>
  \<open>populate_initial_instruments\<close> (lines 599-663). The inner loop over
  \<open>kite_instrument_mapping.items()\<close> returns the first token whose symbol is the one
  looked for; \<open>if not instrument_token: continue\<close> skips a symbol without a token and
  one whose token is 0.
\<close>

fun find_token :: "(int \<times> string) list \<Rightarrow> string \<Rightarrow> int option" where
  "find_token [] kite_symbol = None"
| "find_token ((token, symb) # rest) kite_symbol =
     (if symb = kite_symbol then Some token else find_token rest kite_symbol)"

definition populate_entry ::
  "directory \<Rightarrow> string \<Rightarrow> date \<Rightarrow> string \<times> details \<Rightarrow> world \<Rightarrow> world" where
  "populate_entry dir tsym ex entry w =
     (case entry of (kite_symbol, d) \<Rightarrow>
        (if det_trade_symbol d \<noteq> tsym then w
         else
           (case find_token (kite_instrument_mapping dir) kite_symbol of
              None \<Rightarrow> w
            | Some token \<Rightarrow>
                (if token = 0 then w
                 else w\<lparr>rows := insert_initial kite_symbol tsym (det_strike d) (det_option_type d)
                                  token ''Initial'' ex (rows w),
                        trace := trace w @ [Execute (InsertInitial kite_symbol)]\<rparr>))))"

definition populate_initial_instruments ::
  "directory \<Rightarrow> string \<Rightarrow> connection option \<Rightarrow> world \<Rightarrow> error + world" where
  "populate_initial_instruments dir tsym conn w =
     (case map_of (nearest_expiry_dates dir) tsym of
        None \<Rightarrow> Inl KeyError
      | Some ex \<Rightarrow>
          (let w1 = open_conn conn w;
               w2 = fold (populate_entry dir tsym ex) (kite_instrument_details dir) w1;
               w3 = w2\<lparr>trace := trace w2 @ [Commit]\<rparr>
           in Inr (close_conn conn w3)))"

section \<open>Adaptive batching policy\<close>

text \<open>
  The two closures of \<open>database_worker\<close> (lines 704-739), with the queue size and the
  CPU sample they read as parameters, and the guard of the emergency branch (line 748).
\<close>

definition get_adaptive_timeout :: "nat \<Rightarrow> real" where
  "get_adaptive_timeout queue_size =
     (if queue_size > 1000 then 0.05
      else if queue_size > 500 then 0.1
      else if queue_size > 200 then 0.2
      else 0.3)"

definition get_adaptive_batch_size :: "real \<Rightarrow> nat \<Rightarrow> nat" where
  "get_adaptive_batch_size cpu_percent queue_size =
     (if queue_size > 2000 then 150
      else if queue_size > 1000 then 100
      else if queue_size > 500 then 75
      else if queue_size > 200 then 50
      else if queue_size > 100 then 35
      else if cpu_percent > 80 then 25
      else if cpu_percent > 60 then 35
      else 50)"

definition emergency :: "nat \<Rightarrow> bool" where
  "emergency queue_size = (queue_size > 2000)"

section \<open>The batch consumer\<close>

text \<open>
  The classification both loops of \<open>database_worker\<close> apply to a tick (lines 767-802
  and 882-940): a spot tick \<open>(spot_symbol, price, exchange_timestamp, trade_symbol)\<close>,
  a contract tick \<open>(kite_symbol, price, instrument_token, exchange_timestamp)\<close>, or
  nothing. \<open>not instrument_token\<close> holds for None and for 0, \<open>not kite_symbol\<close> for
  None and for the empty string.
\<close>

type_synonym spot_tick = "string \<times> real \<times> datetime option \<times> string"
type_synonym zerodha_tick = "string \<times> real \<times> int \<times> datetime option"

datatype resolved = Spot spot_tick | Contract zerodha_tick | Unresolved

fun find_spot :: "(string \<times> int option) list \<Rightarrow> string list \<Rightarrow> int \<Rightarrow> string option" where
  "find_spot toks [] token = None"
| "find_spot toks (tsym # rest) token =
     (if Some token = (case map_of toks tsym of None \<Rightarrow> None | Some v \<Rightarrow> v)
      then Some tsym
      else find_spot toks rest token)"

definition resolve_tick :: "directory \<Rightarrow> string list \<Rightarrow> tick \<Rightarrow> resolved" where
  "resolve_tick dir trade_symbols t =
     (if tick_source t = ''zerodha'' then
        (case (tick_instrument_token (tick_data t), last_price (tick_data t)) of
           (Some token, Some ltp) \<Rightarrow>
             (if token = 0 then Unresolved
              else
                (case find_spot (spot_instrument_tokens dir) trade_symbols token of
                   Some tsym \<Rightarrow>
                     Spot ((if tsym = ''NIFTY'' then ''NIFTY 50'' else ''SENSEX''), ltp,
                           exchange_timestamp (tick_data t), tsym)
                 | None \<Rightarrow>
                     (case map_of (kite_instrument_mapping dir) token of
                        None \<Rightarrow> Unresolved
                      | Some kite_symbol \<Rightarrow>
                          (if kite_symbol = [] then Unresolved
                           else Contract (kite_symbol, ltp, token,
                                          exchange_timestamp (tick_data t))))))
         | _ \<Rightarrow> Unresolved)
      else Unresolved)"

fun spot_ticks_of :: "resolved list \<Rightarrow> spot_tick list" where
  "spot_ticks_of [] = []"
| "spot_ticks_of (Spot s # rs) = s # spot_ticks_of rs"
| "spot_ticks_of (_ # rs) = spot_ticks_of rs"

fun zerodha_ticks_of :: "resolved list \<Rightarrow> zerodha_tick list" where
  "zerodha_ticks_of [] = []"
| "zerodha_ticks_of (Contract z # rs) = z # zerodha_ticks_of rs"
| "zerodha_ticks_of (_ # rs) = zerodha_ticks_of rs"

text \<open>
  The delay statistics (lines 894-903), updated in the normal loop for a tick of source
  \<open>zerodha\<close> whose exchange timestamp is present, before the tick is validated.
  \<open>(current_time - exchange_timestamp).total_seconds()\<close> is negative when the exchange
  timestamp is later than the local clock.
\<close>

definition delay_seconds :: "datetime \<Rightarrow> datetime \<Rightarrow> real" where
  "delay_seconds now ets = real_of_int (int now - int ets) / 1000000"

definition update_delay_stats :: "real \<Rightarrow> delay_statistics \<Rightarrow> delay_statistics" where
  "update_delay_stats d st =
     st\<lparr>count := count st + 1,
        total_delay := total_delay st + d,
        min_delay := bound_min (min_delay st) d,
        max_delay := max (max_delay st) d\<rparr>"

definition record_delay :: "datetime \<Rightarrow> tick \<Rightarrow> delay_statistics \<Rightarrow> delay_statistics" where
  "record_delay now t st =
     (if tick_source t = ''zerodha'' then
        (case exchange_timestamp (tick_data t) of
           Some ets \<Rightarrow> update_delay_stats (delay_seconds now ets) st
         | None \<Rightarrow> st)
      else st)"

text \<open>
  The two ways a consumer takes ticks off the queue. The emergency drain (lines 753-759)
  pops with \<open>get_nowait()\<close> while the queue is not empty and the batch is below its cap;
  the normal collection (lines 852-868) pops with \<open>get(timeout=get_adaptive_timeout())\<close>
  until the batch is full or a pop times out on an empty queue. The first argument is
  the number of ticks the batch may still take.
\<close>

fun emergency_drain :: "nat \<Rightarrow> world \<Rightarrow> tick list \<times> world" where
  "emergency_drain 0 w = ([], w)"
| "emergency_drain (Suc n) w =
     (case tick_queue w of
        [] \<Rightarrow> ([], w)
      | t # q \<Rightarrow>
          (case emergency_drain n (w\<lparr>tick_queue := q, trace := trace w @ [GetNowait]\<rparr>) of
             (b, w') \<Rightarrow> (t # b, w')))"

fun collect_batch :: "nat \<Rightarrow> world \<Rightarrow> tick list \<times> world" where
  "collect_batch 0 w = ([], w)"
| "collect_batch (Suc n) w =
     (let w1 = w\<lparr>trace := trace w @ [GetTimeout (get_adaptive_timeout (length (tick_queue w)))]\<rparr>
      in case tick_queue w of
           [] \<Rightarrow> ([], w1)
         | t # q \<Rightarrow>
             (case collect_batch n (w1\<lparr>tick_queue := q\<rparr>) of
                (b, w') \<Rightarrow> (t # b, w')))"

text \<open>
  The store calls for a classified batch. An exception of the bulk call is logged and
  followed by \<open>conn.rollback()\<close> in both loops.
\<close>

definition apply_spot_ticks :: "directory \<Rightarrow> datetime \<Rightarrow> spot_tick list \<Rightarrow> world \<Rightarrow> world" where
  "apply_spot_ticks dir now spot_ticks w =
     fold (\<lambda>s. case s of (spot_symbol, p, ets, tsym) \<Rightarrow>
             upsert_spot_price dir now spot_symbol (Some p) tsym ''zerodha'' (Some ()) ets)
          spot_ticks w"

definition apply_zerodha_ticks ::
  "directory \<Rightarrow> datetime \<Rightarrow> zerodha_tick list \<Rightarrow> world \<Rightarrow> world" where
  "apply_zerodha_ticks dir now zerodha_ticks w =
     (if zerodha_ticks = [] then w
      else
        (case upsert_price_bulk dir now
                (map (\<lambda>(kite_symbol, p, token, ets). kite_symbol) zerodha_ticks)
                (map (\<lambda>(kite_symbol, p, token, ets). Some p) zerodha_ticks)
                (map (\<lambda>(kite_symbol, p, token, ets). ets) zerodha_ticks)
                ''zerodha'' (Some ()) w of
           Inr w' \<Rightarrow> w'
         | Inl e \<Rightarrow> w\<lparr>trace := trace w @ [Rollback]\<rparr>))"

text \<open>
  \<open>get_index_price_and_symbol\<close> (lines 668-692) reads the price of the first of
  \<open>NIFTY 50\<close>, \<open>SENSEX\<close> that has one, on a connection of its own. The normal loop calls
  it once per trade symbol (lines 984-999); what it computes from the answer (the ATM
  strike and the two symbols at it) is never used, so only the reads remain.
\<close>

fun select_first_price :: "string list \<Rightarrow> world \<Rightarrow> (string \<times> real) option \<times> world" where
  "select_first_price [] w = (None, w)"
| "select_first_price (candidate # rest) w =
     (let w1 = w\<lparr>trace := trace w @ [Execute (SelectPrice candidate)]\<rparr>
      in case rows w candidate of
           None \<Rightarrow> select_first_price rest w1
         | Some r \<Rightarrow>
             (case price r of
                None \<Rightarrow> select_first_price rest w1
              | Some p \<Rightarrow> (Some (candidate, p), w1)))"

definition get_index_price_and_symbol :: "world \<Rightarrow> (string \<times> real) option \<times> world" where
  "get_index_price_and_symbol w =
     (case select_first_price [''NIFTY 50'', ''SENSEX''] (w\<lparr>trace := trace w @ [Connect]\<rparr>) of
        (res, w1) \<Rightarrow> (res, w1\<lparr>trace := trace w1 @ [Close]\<rparr>))"

definition straddle_lookups :: "string list \<Rightarrow> world \<Rightarrow> world" where
  "straddle_lookups trade_symbols w =
     fold (\<lambda>tsym w'. snd (get_index_price_and_symbol w')) trade_symbols w"

text \<open>
  One pass of the \<open>while not shutdown_event.is_set()\<close> loop of \<open>database_worker\<close>
  (lines 741-1004) for a consumer that holds an open connection, with the shutdown flag
  not set, and alone on the queue during the pass: \<open>qsize()\<close> is the length of the
  queue, and a pop with a timeout on the empty queue times out. \<open>cpu_percent\<close> is the
  sample of \<open>psutil.cpu_percent()\<close>, \<open>now\<close> the clock of the pass.
\<close>

datatype cycle = EmergencyCycle | NormalCycle | EmptyCycle

definition normal_cycle ::
  "directory \<Rightarrow> string list \<Rightarrow> real \<Rightarrow> datetime \<Rightarrow> world \<Rightarrow> cycle \<times> world" where
  "normal_cycle dir trade_symbols cpu_percent now w =
     (let current_batch_size = get_adaptive_batch_size cpu_percent (length (tick_queue w))
      in case collect_batch current_batch_size w of
           (batch, w1) \<Rightarrow>
             (if batch = [] then (EmptyCycle, w1)
              else
                let w2 = w1\<lparr>delay_stats := fold (record_delay now) batch (delay_stats w1)\<rparr>;
                    resolved = map (resolve_tick dir trade_symbols) batch;
                    w3 = apply_spot_ticks dir now (spot_ticks_of resolved) w2;
                    w4 = apply_zerodha_ticks dir now (zerodha_ticks_of resolved) w3;
                    w5 = straddle_lookups trade_symbols w4
                in (NormalCycle, w5\<lparr>trace := trace w5 @ [Commit]\<rparr>)))"

definition database_worker_iteration ::
  "directory \<Rightarrow> string list \<Rightarrow> real \<Rightarrow> datetime \<Rightarrow> world \<Rightarrow> cycle \<times> world" where
  "database_worker_iteration dir trade_symbols cpu_percent now w =
     (let queue_size = length (tick_queue w)
      in if emergency queue_size then
           (case emergency_drain 300 w of
              (emergency_batch, w1) \<Rightarrow>
                (if emergency_batch \<noteq> [] then
                   let resolved = map (resolve_tick dir trade_symbols) emergency_batch;
                       w2 = apply_spot_ticks dir now (spot_ticks_of resolved) w1;
                       w3 = apply_zerodha_ticks dir now (zerodha_ticks_of resolved) w2
                   in (EmergencyCycle, w3\<lparr>trace := trace w3 @ [Commit]\<rparr>)
                 else normal_cycle dir trade_symbols cpu_percent now w1))
         else normal_cycle dir trade_symbols cpu_percent now w)"

section \<open>The connection supervisor\<close>

text \<open>
  The globals the feed callbacks touch, and the record of what the supervisor does:
  \<open>tm.sleep(n)\<close>, \<open>zerodha_authenticate()\<close>, and \<open>kws.connect()\<close> / \<open>kws.close()\<close>
  of one feed session. \<open>run_zerodha_websocket\<close> (lines 1156-1202) is one session from
  connect to close; how long it lasts is decided by the provider, and the callbacks that
  arrive meanwhile are steps of their own. Authentication is taken to succeed and to
  return \<open>fresh_token\<close>.
\<close>

datatype feed_event = Sleep nat | Authenticate | ConnectFeed | CloseFeed

record supervisor =
  zerodha_connected :: bool
  reconnect_attempts :: nat
  kite_access_token :: "string option"
  shutdown_event :: bool
  feed_trace :: "feed_event list"

definition MAX_RECONNECTS :: nat where
  "MAX_RECONNECTS = 10"

definition fresh_token :: string where
  "fresh_token = ''access_token''"

definition run_zerodha_websocket :: "supervisor \<Rightarrow> supervisor" where
  "run_zerodha_websocket st =
     (let st1 = (if kite_access_token st = None
                 then st\<lparr>kite_access_token := Some fresh_token,
                         feed_trace := feed_trace st @ [Authenticate]\<rparr>
                 else st)
      in st1\<lparr>feed_trace := feed_trace st1 @ [ConnectFeed, CloseFeed]\<rparr>)"

text \<open>\<open>zerodha_on_error\<close> (lines 1109-1134).\<close>

definition zerodha_on_error :: "int \<Rightarrow> supervisor \<Rightarrow> supervisor" where
  "zerodha_on_error code st =
     (let st1 = st\<lparr>zerodha_connected := False\<rparr>
      in if code \<in> {1000, 1001} then st1
         else if reconnect_attempts st1 \<ge> MAX_RECONNECTS then st1
         else run_zerodha_websocket
                (st1\<lparr>reconnect_attempts := reconnect_attempts st1 + 1,
                     kite_access_token := None,
                     feed_trace := feed_trace st1 @ [Sleep 5]\<rparr>))"

text \<open>
  One pass of the serve loop of \<open>main\<close> (lines 1334-1340): the flag tells whether the
  loop goes on.
\<close>

definition main_loop_iteration :: "supervisor \<Rightarrow> bool \<times> supervisor" where
  "main_loop_iteration st =
     (if shutdown_event st then (False, st)
      else
        let st1 = run_zerodha_websocket st
        in if shutdown_event st1 then (False, st1)
           else (True, st1\<lparr>feed_trace := feed_trace st1 @ [Sleep 2]\<rparr>))"

definition session_starts :: "supervisor \<Rightarrow> nat" where
  "session_starts st = length (filter (\<lambda>e. e = ConnectFeed) (feed_trace st))"

section \<open>Sample states and the notions the properties are stated with\<close>

text \<open>A supervisor right after start-up: connected, authenticated, no reconnect made.\<close>

definition idle_supervisor :: supervisor where
  "idle_supervisor =
     \<lparr>zerodha_connected = True, reconnect_attempts = 0,
      kite_access_token = Some fresh_token, shutdown_event = False, feed_trace = []\<rparr>"

text \<open>A consumer world with nothing queued, nothing stored, nothing done.\<close>

definition empty_world :: world where
  "empty_world = \<lparr>tick_queue = [], rows = Map.empty, delay_stats = initial_delay_stats, trace = []\<rparr>"

text \<open>
  The derived view of one symbol agrees with its source columns: the row exists and,
  whenever \<open>zerodha_price\<close> is not null, \<open>price\<close> and \<open>timestamp\<close> are its copies.
\<close>

definition derived_in_sync :: "table \<Rightarrow> string \<Rightarrow> bool" where
  "derived_in_sync tbl symb =
     (case tbl symb of
        None \<Rightarrow> False
      | Some r \<Rightarrow> (zerodha_price r \<noteq> None \<longrightarrow>
                    price r = zerodha_price r \<and> timestamp r = zerodha_timestamp r))"

text \<open>
  The pops \<open>collect_batch\<close> records when it may take \<open>n\<close> ticks from a queue of the
  given length: one \<open>get(timeout=...)\<close> per tick taken, and one more that times out if
  the queue runs empty first.
\<close>

fun timeout_events :: "nat \<Rightarrow> nat \<Rightarrow> event list" where
  "timeout_events 0 len = []"
| "timeout_events (Suc n) len =
     GetTimeout (get_adaptive_timeout len) # (if len = 0 then [] else timeout_events n (len - 1))"

text \<open>
  A small directory, built the way the parser builds it: one NIFTY contract with token
  101, the NIFTY spot token 256265, and a tick of the feed for a given token.
\<close>

definition sample_directory :: directory where
  "sample_directory =
     register_instrument ''NIFTY'' (101, ''NIFTY25000CE'', 25000, ''CE'', 20000)
       (empty_directory\<lparr>spot_instrument_tokens := [(''NIFTY'', Some 256265)],
                        nearest_expiry_dates := [(''NIFTY'', 20000)]\<rparr>)"

definition sample_tick :: "int \<Rightarrow> real \<Rightarrow> datetime option \<Rightarrow> tick" where
  "sample_tick token ltp ets =
     \<lparr>tick_source = ''zerodha'',
      tick_data = \<lparr>tick_instrument_token = Some token, last_price = Some ltp,
                   exchange_timestamp = ets\<rparr>,
      queue_entry_time = 0\<rparr>"

text \<open>
  One state of the delay statistics is reached from another by accumulation only: the
  count has not dropped, the minimum has not grown, the maximum has not dropped.
\<close>

definition accumulates :: "delay_statistics \<Rightarrow> delay_statistics \<Rightarrow> bool" where
  "accumulates st st' =
     (count st \<le> count st' \<and> bound_le (min_delay st') (min_delay st)
      \<and> max_delay st \<le> max_delay st')"

text \<open>
  What one bulk call with source \<open>zerodha\<close> on an open connection does for a non-empty
  list of contract ticks: to the table, and to the trace. And the trace of one spot call.
\<close>

definition bulk_rows :: "directory \<Rightarrow> datetime \<Rightarrow> zerodha_tick list \<Rightarrow> table \<Rightarrow> table" where
  "bulk_rows dir now zs tbl =
     fold update_derived (map fst zs)
       (fold insert_bulk
          (map (\<lambda>z. (fst z, Some (fst (snd z)), stamp now (snd (snd (snd z))),
                      per_symbol_expiry dir (fst z))) zs)
          tbl)"

definition bulk_call_events :: "zerodha_tick list \<Rightarrow> event list" where
  "bulk_call_events zs =
     (if zs = [] then []
      else [ExecuteMany (map InsertBulk (map fst zs)),
            ExecuteMany (map UpdateDerived (map fst zs)), Commit])"

definition spot_call_events :: "spot_tick \<Rightarrow> event list" where
  "spot_call_events s =
     [Execute (InsertSpot (fst s)), Execute (UpdateDerived (fst s)), Commit]"

text \<open>Events of a connection that only reads.\<close>

definition reads_only :: "event list \<Rightarrow> bool" where
  "reads_only evs = (\<forall>e \<in> set evs. e = Connect \<or> e = Close \<or> (\<exists>c. e = Execute (SelectPrice c)))"

text \<open>What the spot calls for a list of spot ticks do to the table, one after the other.\<close>

definition spot_rows :: "directory \<Rightarrow> datetime \<Rightarrow> spot_tick list \<Rightarrow> table \<Rightarrow> table" where
  "spot_rows dir now ss tbl =
     fold (\<lambda>s t. update_derived (fst s)
                   (insert_spot (fst s) (Some (fst (snd s))) (stamp now (fst (snd (snd s))))
                      (snd (snd (snd s))) ''zerodha''
                      (map_of (nearest_expiry_dates dir) (snd (snd (snd s)))) t))
          ss tbl"

text \<open>
  A directory the parser builds from two CSV rows that carry the same instrument token:
  the second row takes the token over, and symbol \<open>A\<close> keeps its details but no token.
\<close>

definition clashing_directory :: directory where
  "clashing_directory =
     register_instrument ''NIFTY'' (5, ''B'', 25100, ''PE'', 20000)
       (register_instrument ''NIFTY'' (5, ''A'', 25000, ''CE'', 20000)
          (empty_directory\<lparr>nearest_expiry_dates := [(''NIFTY'', 20000)]\<rparr>))"

text \<open>
  The number of ticks one pass may take off a queue of the given length: 300 in the
  emergency branch, the adaptive batch size otherwise.
\<close>

definition batch_cap :: "real \<Rightarrow> nat \<Rightarrow> nat" where
  "batch_cap cpu len = (if emergency len then 300 else get_adaptive_batch_size cpu len)"

text \<open>
  A row written by the spot path: it exists, its \<open>trade_symbol\<close> is not null and its
  \<open>source\<close> is the \<open>zerodha\<close> the consumer passes.
\<close>

definition spot_stamped :: "table \<Rightarrow> string \<Rightarrow> bool" where
  "spot_stamped tbl s =
     (case tbl s of
        None \<Rightarrow> False
      | Some r \<Rightarrow> trade_symbol r \<noteq> None \<and> source r = Some ''zerodha'')"

text \<open>
  A directory in which a contract carries the name of a spot symbol: token 202 is mapped
  to the trading symbol \<open>SENSEX\<close>, and 265 is the SENSEX spot token.
\<close>

definition homonym_directory :: directory where
  "homonym_directory =
     register_instrument ''SENSEX'' (202, ''SENSEX'', 80000, ''CE'', 20000)
       (empty_directory\<lparr>spot_instrument_tokens := [(''SENSEX'', Some 265)],
                        nearest_expiry_dates := [(''SENSEX'', 20000)]\<rparr>)"

section \<open>Adaptive policy: tiers and monotonicity\<close>

text \<open>
  C3, as the code has it. The pop timeout never grows with the queue depth. The target
  batch size never shrinks with the depth at a fixed CPU sample, except across the one
  step where a CPU sample of at most 60 meets a depth of at most 100 on one side and a
  depth in 101..200 on the other (50 against 35). Depth 1500 gives timeout 0.05 and
  batch size 100; depth 2500 gives timeout 0.05 and batch size 150, and the emergency
  guard holds at 2500 and not at 1500.
\<close>

theorem adaptive_policy_tiers:
  "(d1 \<le> d2 \<longrightarrow> get_adaptive_timeout d2 \<le> get_adaptive_timeout d1)
   \<and> (d1 \<le> d2 \<and> \<not> (cpu \<le> 60 \<and> d1 \<le> 100 \<and> 100 < d2 \<and> d2 \<le> 200)
        \<longrightarrow> get_adaptive_batch_size cpu d1 \<le> get_adaptive_batch_size cpu d2)
   \<and> get_adaptive_timeout 1500 = 0.05 \<and> get_adaptive_batch_size cpu 1500 = 100
   \<and> get_adaptive_timeout 2500 = 0.05 \<and> get_adaptive_batch_size cpu 2500 = 150
   \<and> emergency 2500 \<and> \<not> emergency 1500"
  by (simp add: get_adaptive_timeout_def get_adaptive_batch_size_def emergency_def)

theorem adaptive_policy_tiers_witness:
  "(1500::nat) \<le> 2500
   \<and> \<not> ((50::real) \<le> 60 \<and> (1500::nat) \<le> 100 \<and> (100::nat) < 2500 \<and> (2500::nat) \<le> 200)
   \<and> get_adaptive_timeout 2500 \<le> get_adaptive_timeout 1500
   \<and> get_adaptive_batch_size 50 1500 \<le> get_adaptive_batch_size 50 2500"
  using adaptive_policy_tiers [of 1500 2500 50] by simp

text \<open>
  C3 as stated fails twice: depth 1500 is above 1000, so its timeout is 0.05 and not
  0.1; and at a CPU sample of 50 the batch size drops from 50 at depth 100 to 35 at
  depth 150.
\<close>

theorem adaptive_policy_counterexample:
  "get_adaptive_timeout 1500 \<noteq> 0.1
   \<and> (100::nat) \<le> 150
   \<and> \<not> get_adaptive_batch_size 50 100 \<le> get_adaptive_batch_size 50 150"
  by (simp add: get_adaptive_timeout_def get_adaptive_batch_size_def)

section \<open>Bulk upsert of nothing\<close>

text \<open>
  C10. \<open>upsert_price_bulk\<close> with an empty list of symbols returns at once: no row
  changes and no event is recorded, so no connection is opened, no statement executed
  and nothing committed.
\<close>

theorem upsert_price_bulk_empty_noop:
  "upsert_price_bulk dir now [] prices exchange_timestamps src conn w = Inr w"
  by (simp add: upsert_price_bulk_def)

section \<open>The reconnect budget\<close>

lemma on_error_attempts:
  "reconnect_attempts (zerodha_on_error code st) =
     (if code \<in> {1000, 1001} \<or> MAX_RECONNECTS \<le> reconnect_attempts st
      then reconnect_attempts st else reconnect_attempts st + 1)"
  by (simp add: zerodha_on_error_def run_zerodha_websocket_def Let_def)

lemma on_error_sessions:
  "session_starts (zerodha_on_error code st) =
     (if code \<in> {1000, 1001} \<or> MAX_RECONNECTS \<le> reconnect_attempts st
      then session_starts st else session_starts st + 1)"
  by (simp add: zerodha_on_error_def run_zerodha_websocket_def Let_def session_starts_def)

lemma fold_on_error_attempts:
  "reconnect_attempts st \<le> MAX_RECONNECTS \<Longrightarrow>
   reconnect_attempts (fold zerodha_on_error codes st) =
     min MAX_RECONNECTS (reconnect_attempts st + length (filter (\<lambda>c. c \<notin> {1000, 1001}) codes))"
proof (induction codes arbitrary: st)
  case Nil
  then show ?case by simp
next
  case (Cons c cs)
  have le: "reconnect_attempts (zerodha_on_error c st) \<le> MAX_RECONNECTS"
    using Cons.prems by (simp add: on_error_attempts)
  show ?case
    using Cons.IH [OF le] Cons.prems by (auto simp: on_error_attempts)
qed

lemma fold_on_error_sessions:
  "reconnect_attempts st \<le> MAX_RECONNECTS \<Longrightarrow>
   session_starts (fold zerodha_on_error codes st) + reconnect_attempts st =
     session_starts st + reconnect_attempts (fold zerodha_on_error codes st)"
proof (induction codes arbitrary: st)
  case Nil
  then show ?case by simp
next
  case (Cons c cs)
  have le: "reconnect_attempts (zerodha_on_error c st) \<le> MAX_RECONNECTS"
    using Cons.prems by (simp add: on_error_attempts)
  show ?case
    using Cons.IH [OF le] Cons.prems
    by (auto simp: on_error_attempts on_error_sessions split: if_splits)
qed

text \<open>
  C2, as the code has it. Starting from a counter of 0, any run of error callbacks
  leaves the counter at the number of non-normal-closure codes seen, capped at
  \<open>MAX_RECONNECTS\<close>, and the callbacks have started exactly that many sessions; the
  counter is cumulative. Once the counter has reached \<open>MAX_RECONNECTS\<close> an error
  callback only marks the feed disconnected. The serve loop of \<open>main\<close> does not read
  the counter: while the shutdown flag is not set, each pass starts one more session
  and goes on.
\<close>

theorem reconnect_budget:
  "(reconnect_attempts st = 0 \<longrightarrow>
      reconnect_attempts (fold zerodha_on_error codes st) =
        min MAX_RECONNECTS (length (filter (\<lambda>c. c \<notin> {1000, 1001}) codes))
      \<and> session_starts (fold zerodha_on_error codes st) =
        session_starts st + min MAX_RECONNECTS (length (filter (\<lambda>c. c \<notin> {1000, 1001}) codes)))
   \<and> (MAX_RECONNECTS \<le> reconnect_attempts st \<longrightarrow>
        zerodha_on_error code st = st\<lparr>zerodha_connected := False\<rparr>)
   \<and> (\<not> shutdown_event st \<longrightarrow>
        fst (main_loop_iteration st)
        \<and> session_starts (snd (main_loop_iteration st)) = session_starts st + 1
        \<and> reconnect_attempts (snd (main_loop_iteration st)) = reconnect_attempts st)"
proof (intro conjI impI)
  assume z: "reconnect_attempts st = 0"
  then have le: "reconnect_attempts st \<le> MAX_RECONNECTS" by simp
  show a: "reconnect_attempts (fold zerodha_on_error codes st) =
        min MAX_RECONNECTS (length (filter (\<lambda>c. c \<notin> {1000, 1001}) codes))"
    using fold_on_error_attempts [OF le, of codes] z by simp
  show "session_starts (fold zerodha_on_error codes st) =
        session_starts st + min MAX_RECONNECTS (length (filter (\<lambda>c. c \<notin> {1000, 1001}) codes))"
    using fold_on_error_sessions [OF le, of codes] z a by simp
next
  assume "MAX_RECONNECTS \<le> reconnect_attempts st"
  then show "zerodha_on_error code st = st\<lparr>zerodha_connected := False\<rparr>"
    by (simp add: zerodha_on_error_def Let_def)
next
  assume "\<not> shutdown_event st"
  then show "fst (main_loop_iteration st)"
    by (simp add: main_loop_iteration_def run_zerodha_websocket_def Let_def)
next
  assume "\<not> shutdown_event st"
  then show "session_starts (snd (main_loop_iteration st)) = session_starts st + 1"
    by (simp add: main_loop_iteration_def run_zerodha_websocket_def Let_def session_starts_def)
next
  assume "\<not> shutdown_event st"
  then show "reconnect_attempts (snd (main_loop_iteration st)) = reconnect_attempts st"
    by (simp add: main_loop_iteration_def run_zerodha_websocket_def Let_def)
qed

theorem reconnect_budget_witness:
  "reconnect_attempts idle_supervisor = 0
   \<and> reconnect_attempts (fold zerodha_on_error (replicate 12 1006) idle_supervisor) = 10
   \<and> session_starts (fold zerodha_on_error (replicate 12 1006) idle_supervisor) = 10
   \<and> MAX_RECONNECTS \<le> reconnect_attempts (idle_supervisor\<lparr>reconnect_attempts := 10\<rparr>)
   \<and> zerodha_on_error 1006 (idle_supervisor\<lparr>reconnect_attempts := 10\<rparr>) =
       idle_supervisor\<lparr>reconnect_attempts := 10, zerodha_connected := False\<rparr>
   \<and> \<not> shutdown_event idle_supervisor
   \<and> fst (main_loop_iteration idle_supervisor)
   \<and> session_starts (snd (main_loop_iteration idle_supervisor)) = 1"
  using reconnect_budget [of idle_supervisor "replicate 12 1006" 1006]
    reconnect_budget [of "idle_supervisor\<lparr>reconnect_attempts := 10\<rparr>" "[]" 1006]
  by (simp add: idle_supervisor_def MAX_RECONNECTS_def session_starts_def)

text \<open>
  C2 as stated fails: after ten error callbacks with the abnormal-closure code 1006 the
  counter is at \<open>MAX_RECONNECTS\<close>, the shutdown flag is still not set, and the next
  pass of the serve loop starts another feed session and keeps looping.
\<close>

theorem reconnect_halts_counterexample:
  "reconnect_attempts (fold zerodha_on_error (replicate 10 1006) idle_supervisor) = MAX_RECONNECTS
   \<and> \<not> shutdown_event (fold zerodha_on_error (replicate 10 1006) idle_supervisor)
   \<and> fst (main_loop_iteration (fold zerodha_on_error (replicate 10 1006) idle_supervisor))
   \<and> session_starts
        (snd (main_loop_iteration (fold zerodha_on_error (replicate 10 1006) idle_supervisor)))
       = session_starts (fold zerodha_on_error (replicate 10 1006) idle_supervisor) + 1"
  by (simp add: idle_supervisor_def zerodha_on_error_def run_zerodha_websocket_def Let_def
      MAX_RECONNECTS_def numeral_eq_Suc main_loop_iteration_def session_starts_def)

section \<open>Store operations: rows and the derived columns\<close>

lemma rows_open_conn [simp]: "rows (open_conn conn w) = rows w"
  by (simp add: open_conn_def)

lemma rows_close_conn [simp]: "rows (close_conn conn w) = rows w"
  by (simp add: close_conn_def)

lemma delay_stats_open_conn [simp]: "delay_stats (open_conn conn w) = delay_stats w"
  by (simp add: open_conn_def)

lemma delay_stats_close_conn [simp]: "delay_stats (close_conn conn w) = delay_stats w"
  by (simp add: close_conn_def)

lemma rows_upsert_price:
  "rows (upsert_price dir now k p tsym src conn tok ets w) =
     update_derived k
       ((if lower src = ''zerodha'' then insert_zerodha else insert_common) k p (stamp now ets) tok
          (case map_option det_expiry (map_of (kite_instrument_details dir) k) of
             Some e \<Rightarrow> Some e
           | None \<Rightarrow> Option.bind tsym (map_of (nearest_expiry_dates dir)))
          (rows w))"
  by (simp add: upsert_price_def Let_def)

lemma rows_upsert_spot_price:
  "rows (upsert_spot_price dir now k p tsym src conn ets w) =
     update_derived k
       (insert_spot k p (stamp now ets) tsym src (map_of (nearest_expiry_dates dir) tsym) (rows w))"
  by (simp add: upsert_spot_price_def Let_def)

lemma update_derived_sync: "s \<in> dom tbl \<Longrightarrow> derived_in_sync (update_derived s tbl) s"
  by (auto simp: update_derived_def derived_in_sync_def split: option.splits)

lemma update_derived_other: "s' \<noteq> s \<Longrightarrow> update_derived s tbl s' = tbl s'"
  by (auto simp: update_derived_def split: option.splits)

lemma update_derived_keeps_sync:
  "derived_in_sync tbl s' \<Longrightarrow> derived_in_sync (update_derived s tbl) s'"
  by (cases "s' = s") (auto simp: update_derived_def derived_in_sync_def split: option.splits)

lemma update_derived_dom: "dom (update_derived s tbl) = dom tbl"
  by (auto simp: update_derived_def split: option.splits if_splits)

lemma fold_update_derived_keeps_sync:
  "derived_in_sync tbl s \<Longrightarrow> derived_in_sync (fold update_derived syms tbl) s"
  by (induction syms arbitrary: tbl) (simp_all add: update_derived_keeps_sync)

lemma fold_update_derived_dom: "dom (fold update_derived syms tbl) = dom tbl"
  by (induction syms arbitrary: tbl) (simp_all add: update_derived_dom)

lemma fold_update_derived_sync:
  "s \<in> set syms \<Longrightarrow> s \<in> dom tbl \<Longrightarrow> derived_in_sync (fold update_derived syms tbl) s"
proof (induction syms arbitrary: tbl)
  case Nil
  then show ?case by simp
next
  case (Cons a syms)
  show ?case
  proof (cases "a = s")
    case True
    then show ?thesis
      using Cons.prems by (simp add: fold_update_derived_keeps_sync update_derived_sync)
  next
    case False
    then have "s \<in> set syms" using Cons.prems by simp
    moreover have "s \<in> dom (update_derived a tbl)"
      using Cons.prems by (simp add: update_derived_dom)
    ultimately show ?thesis using Cons.IH by simp
  qed
qed

lemma fold_update_derived_other:
  "s \<notin> set syms \<Longrightarrow> fold update_derived syms tbl s = tbl s"
  by (induction syms arbitrary: tbl) (auto simp: update_derived_other)

lemma insert_bulk_other: "fst d \<noteq> s \<Longrightarrow> insert_bulk d tbl s = tbl s"
  by (auto simp: insert_bulk_def split: prod.splits option.splits)

lemma insert_bulk_dom: "dom (insert_bulk d tbl) = insert (fst d) (dom tbl)"
  by (auto simp: insert_bulk_def split: prod.splits option.splits if_splits)

lemma fold_insert_bulk_other:
  "s \<notin> fst ` set ds \<Longrightarrow> fold insert_bulk ds tbl s = tbl s"
  by (induction ds arbitrary: tbl) (auto simp: insert_bulk_other)

lemma fold_insert_bulk_dom: "dom (fold insert_bulk ds tbl) = fst ` set ds \<union> dom tbl"
  by (induction ds arbitrary: tbl) (auto simp: insert_bulk_dom)

lemma fst_set_zip: "length xs \<le> length ys \<Longrightarrow> fst ` set (zip xs ys) = set xs"
proof -
  assume "length xs \<le> length ys"
  then have "map fst (zip xs ys) = xs" by (simp add: map_fst_zip_take)
  then have "set (map fst (zip xs ys)) = set xs" by simp
  then show ?thesis by simp
qed

lemma rows_upsert_price_bulk:
  "upsert_price_bulk dir now syms prices etss src conn w = Inr w' \<Longrightarrow>
   rows w' =
     (if syms \<noteq> [] \<and> lower src = ''zerodha''
      then fold update_derived syms
             (fold insert_bulk
                (zip syms (zip prices (zip (map (stamp now) etss) (map (per_symbol_expiry dir) syms))))
                (rows w))
      else rows w)"
  by (auto simp: upsert_price_bulk_def Let_def split: if_splits)

lemma upsert_price_bulk_lengths:
  "upsert_price_bulk dir now syms prices etss src conn w = Inr w' \<Longrightarrow>
   syms \<noteq> [] \<Longrightarrow> lower src = ''zerodha'' \<Longrightarrow>
   length syms \<le> length prices \<and> length syms \<le> length etss"
  by (auto simp: upsert_price_bulk_def Let_def split: if_splits)

lemma bulk_touched_sync:
  assumes ok: "upsert_price_bulk dir now syms prices etss src conn w = Inr w'"
    and z: "lower src = ''zerodha''" and s: "s \<in> set syms"
  shows "derived_in_sync (rows w') s"
proof -
  from s have ne: "syms \<noteq> []" by auto
  from upsert_price_bulk_lengths [OF ok ne z]
  have len: "length syms \<le> length prices" "length syms \<le> length etss" by simp_all
  let ?data = "zip syms (zip prices (zip (map (stamp now) etss) (map (per_symbol_expiry dir) syms)))"
  have "fst ` set ?data = set syms"
    using len by (intro fst_set_zip) simp
  then have "s \<in> dom (fold insert_bulk ?data (rows w))"
    using s by (simp add: fold_insert_bulk_dom)
  then have "derived_in_sync (fold update_derived syms (fold insert_bulk ?data (rows w))) s"
    using s by (rule fold_update_derived_sync [rotated])
  then show ?thesis
    using rows_upsert_price_bulk [OF ok] ne z by simp
qed

lemma bulk_untouched:
  assumes ok: "upsert_price_bulk dir now syms prices etss src conn w = Inr w'"
    and s: "s \<notin> set syms \<or> lower src \<noteq> ''zerodha''"
  shows "rows w' s = rows w s"
proof (cases "syms \<noteq> [] \<and> lower src = ''zerodha''")
  case True
  then have ns: "s \<notin> set syms" using s by simp
  let ?data = "zip syms (zip prices (zip (map (stamp now) etss) (map (per_symbol_expiry dir) syms)))"
  have "fst ` set ?data \<subseteq> set syms"
    by (auto dest: set_zip_leftD)
  then have "s \<notin> fst ` set ?data" using ns by auto
  then show ?thesis
    using rows_upsert_price_bulk [OF ok] True ns
    by (simp add: fold_update_derived_other fold_insert_bulk_other)
next
  case False
  then show ?thesis using rows_upsert_price_bulk [OF ok] by auto
qed

lemma insert_zerodha_dom: "s \<in> dom (insert_zerodha s p ts tok ex tbl)"
  by (simp add: insert_zerodha_def split: option.splits)
lemma insert_common_dom: "s \<in> dom (insert_common s p ts tok ex tbl)"
  by (simp add: insert_common_def split: option.splits)
lemma insert_spot_dom: "s \<in> dom (insert_spot s p ts tsym src ex tbl)"
  by (simp add: insert_spot_def split: option.splits)

text \<open>
  C9. After \<open>upsert_price\<close> and after \<open>upsert_spot_price\<close> the row of the symbol
  written exists and its derived columns agree with its source columns. After a
  \<open>upsert_price_bulk\<close> that returns, the same holds for every symbol of the list when
  the source is \<open>zerodha\<close>, and for every symbol whose row the call changed at all.
\<close>

theorem derived_columns_recomputed:
  "derived_in_sync (rows (upsert_price dir now kite_symbol p tsym src conn tok ets w)) kite_symbol
   \<and> derived_in_sync (rows (upsert_spot_price dir now spot_symbol p tsym' src conn ets w)) spot_symbol
   \<and> (upsert_price_bulk dir now kite_symbols prices etss src conn w = Inr w' \<longrightarrow>
        (lower src = ''zerodha'' \<longrightarrow> (\<forall>s \<in> set kite_symbols. derived_in_sync (rows w') s))
        \<and> (\<forall>s. rows w' s \<noteq> rows w s \<longrightarrow> derived_in_sync (rows w') s))"
proof (intro conjI impI ballI allI)
  show "derived_in_sync (rows (upsert_price dir now kite_symbol p tsym src conn tok ets w)) kite_symbol"
    unfolding rows_upsert_price
    by (rule update_derived_sync) (simp add: insert_zerodha_dom insert_common_dom)
  show "derived_in_sync (rows (upsert_spot_price dir now spot_symbol p tsym' src conn ets w)) spot_symbol"
    unfolding rows_upsert_spot_price
    by (rule update_derived_sync) (simp add: insert_spot_dom)
next
  fix s
  assume "upsert_price_bulk dir now kite_symbols prices etss src conn w = Inr w'"
    "lower src = ''zerodha''" "s \<in> set kite_symbols"
  then show "derived_in_sync (rows w') s" by (rule bulk_touched_sync)
next
  fix s
  assume ok: "upsert_price_bulk dir now kite_symbols prices etss src conn w = Inr w'"
    and ch: "rows w' s \<noteq> rows w s"
  have "s \<in> set kite_symbols \<and> lower src = ''zerodha''"
    using bulk_untouched [OF ok, of s] ch by blast
  then show "derived_in_sync (rows w') s"
    using bulk_touched_sync [OF ok] by blast
qed

lemma lower_zerodha [simp]: "lower ''zerodha'' = ''zerodha''"
  by (simp add: lower_def lower_char_def)

theorem derived_columns_recomputed_witness:
  "upsert_price_bulk empty_directory 0 [''A'', ''B''] [Some 5, Some 7] [Some 1000, Some 2000]
      ''zerodha'' (Some ()) empty_world
     = Inr (empty_world\<lparr>rows :=
              [''A'' \<mapsto> null_row\<lparr>price := Some 5, timestamp := Some 1000, zerodha_price := Some 5,
                                 zerodha_timestamp := Some 1000\<rparr>,
               ''B'' \<mapsto> null_row\<lparr>price := Some 7, timestamp := Some 2000, zerodha_price := Some 7,
                                 zerodha_timestamp := Some 2000\<rparr>],
            trace := [ExecuteMany [InsertBulk ''A'', InsertBulk ''B''],
                      ExecuteMany [UpdateDerived ''A'', UpdateDerived ''B''], Commit]\<rparr>)
   \<and> lower ''zerodha'' = ''zerodha''
   \<and> ''A'' \<in> set [''A'', ''B'']
   \<and> derived_in_sync
        [''A'' \<mapsto> null_row\<lparr>price := Some 5, timestamp := Some 1000, zerodha_price := Some 5,
                           zerodha_timestamp := Some 1000\<rparr>,
         ''B'' \<mapsto> null_row\<lparr>price := Some 7, timestamp := Some 2000, zerodha_price := Some 7,
                           zerodha_timestamp := Some 2000\<rparr>] ''A''"
proof -
  have run: "upsert_price_bulk empty_directory 0 [''A'', ''B''] [Some 5, Some 7] [Some 1000, Some 2000]
      ''zerodha'' (Some ()) empty_world
     = Inr (empty_world\<lparr>rows :=
              [''A'' \<mapsto> null_row\<lparr>price := Some 5, timestamp := Some 1000, zerodha_price := Some 5,
                                 zerodha_timestamp := Some 1000\<rparr>,
               ''B'' \<mapsto> null_row\<lparr>price := Some 7, timestamp := Some 2000, zerodha_price := Some 7,
                                 zerodha_timestamp := Some 2000\<rparr>],
            trace := [ExecuteMany [InsertBulk ''A'', InsertBulk ''B''],
                      ExecuteMany [UpdateDerived ''A'', UpdateDerived ''B''], Commit]\<rparr>)"
    by (simp add: upsert_price_bulk_def Let_def empty_world_def empty_directory_def open_conn_def
        close_conn_def stamp_def strftime_ms_def per_symbol_expiry_def insert_bulk_def
        update_derived_def null_row_def fun_upd_twist)
  show ?thesis
    using derived_columns_recomputed [of empty_directory 0 "''A''" "Some 5" None "''zerodha''" "Some ()"
        None "Some 1000" empty_world "''A''" "''NIFTY''" "[''A'', ''B'']" "[Some 5, Some 7]"
        "[Some 1000, Some 2000]", THEN conjunct2, THEN conjunct2, rule_format, OF run] run
    by simp
qed

section \<open>Taking ticks off the queue\<close>

lemma emergency_drain_eq:
  "emergency_drain n w =
     (take n (tick_queue w),
      w\<lparr>tick_queue := drop n (tick_queue w),
        trace := trace w @ replicate (min n (length (tick_queue w))) GetNowait\<rparr>)"
proof (induction n arbitrary: w)
  case 0
  then show ?case by simp
next
  case (Suc n)
  show ?case
  proof (cases "tick_queue w")
    case Nil
    then show ?thesis by simp
  next
    case (Cons t q)
    then show ?thesis by (simp add: Suc.IH replicate_append_same)
  qed
qed

lemma collect_batch_eq:
  "collect_batch n w =
     (take n (tick_queue w),
      w\<lparr>tick_queue := drop n (tick_queue w),
        trace := trace w @ timeout_events n (length (tick_queue w))\<rparr>)"
proof (induction n arbitrary: w)
  case 0
  then show ?case by simp
next
  case (Suc n)
  show ?case
  proof (cases "tick_queue w")
    case Nil
    then show ?thesis by (simp add: Let_def)
  next
    case (Cons t q)
    then show ?thesis by (simp add: Suc.IH Let_def)
  qed
qed

section \<open>Idempotence of the single upsert\<close>

lemma derived_after_insert_zerodha_idem:
  "update_derived k (insert_zerodha k p ts tok ex (update_derived k (insert_zerodha k p ts tok ex tbl)))
     = update_derived k (insert_zerodha k p ts tok ex tbl)"
  by (auto simp: fun_eq_iff insert_zerodha_def update_derived_def split: option.splits)

lemma derived_after_insert_common_idem:
  "update_derived k (insert_common k p ts tok ex (update_derived k (insert_common k p ts tok ex tbl)))
     = update_derived k (insert_common k p ts tok ex tbl)"
  by (auto simp: fun_eq_iff insert_common_def update_derived_def split: option.splits)

text \<open>
  C6, as the code has it. For an envelope that carries an exchange timestamp, a second
  \<open>upsert_price\<close> with the same arguments leaves every row of the table as the first
  one left it, whatever the clock reads at either call.
\<close>

theorem upsert_price_idempotent:
  "rows (upsert_price dir now2 kite_symbol p tsym src conn tok (Some ets)
          (upsert_price dir now1 kite_symbol p tsym src conn tok (Some ets) w))
     = rows (upsert_price dir now1 kite_symbol p tsym src conn tok (Some ets) w)"
  by (simp add: rows_upsert_price stamp_def derived_after_insert_zerodha_idem
      derived_after_insert_common_idem)

text \<open>
  C6 as stated fails for an envelope without exchange timestamp: the timestamp written
  is the clock of the call, so a second call at clock 2000 leaves \<open>timestamp\<close> 2000
  where the first call, at clock 1000, had left 1000.
\<close>

theorem upsert_price_idempotent_counterexample:
  "timestamp (the (rows (upsert_price empty_directory 2000 ''A'' (Some 100) None ''zerodha'' (Some ())
                          (Some 1) None
                          (upsert_price empty_directory 1000 ''A'' (Some 100) None ''zerodha'' (Some ())
                             (Some 1) None empty_world)) ''A''))
     = Some 2000
   \<and> timestamp (the (rows (upsert_price empty_directory 1000 ''A'' (Some 100) None ''zerodha'' (Some ())
                             (Some 1) None empty_world) ''A''))
     = Some 1000"
  by (simp add: rows_upsert_price stamp_def strftime_ms_def insert_zerodha_def update_derived_def
      empty_world_def empty_directory_def null_row_def)

section \<open>What the calls of a consumer pass leave behind\<close>

lemma zip_map_same: "zip (map f xs) (map g xs) = map (\<lambda>x. (f x, g x)) xs"
  by (induction xs) simp_all

lemma apply_zerodha_ticks_eq:
  "apply_zerodha_ticks dir now zs w =
     w\<lparr>rows := (if zs = [] then rows w else bulk_rows dir now zs (rows w)),
       trace := trace w @ bulk_call_events zs\<rparr>"
proof (cases "zs = []")
  case True
  then show ?thesis by (simp add: apply_zerodha_ticks_def bulk_call_events_def)
next
  case False
  show ?thesis
    using False
    by (simp add: apply_zerodha_ticks_def upsert_price_bulk_def Let_def case_prod_unfold
        open_conn_def close_conn_def bulk_rows_def bulk_call_events_def zip_map_same comp_def)
qed

lemma upsert_spot_price_eq:
  "upsert_spot_price dir now s p tsym src (Some ()) ets w =
     w\<lparr>rows := update_derived s
                 (insert_spot s p (stamp now ets) tsym src
                    (map_of (nearest_expiry_dates dir) tsym) (rows w)),
       trace := trace w @ [Execute (InsertSpot s), Execute (UpdateDerived s), Commit]\<rparr>"
  by (simp add: upsert_spot_price_def Let_def open_conn_def close_conn_def)

lemma apply_spot_ticks_Nil [simp]: "apply_spot_ticks dir now [] w = w"
  by (simp add: apply_spot_ticks_def)

lemma apply_spot_ticks_Cons:
  "apply_spot_ticks dir now (s # ss) w =
     apply_spot_ticks dir now ss
       (upsert_spot_price dir now (fst s) (Some (fst (snd s))) (snd (snd (snd s))) ''zerodha''
          (Some ()) (fst (snd (snd s))) w)"
  by (simp add: apply_spot_ticks_def case_prod_unfold)

lemma apply_spot_ticks_frame:
  "tick_queue (apply_spot_ticks dir now ss w) = tick_queue w
   \<and> delay_stats (apply_spot_ticks dir now ss w) = delay_stats w
   \<and> trace (apply_spot_ticks dir now ss w) = trace w @ concat (map spot_call_events ss)"
  by (induction ss arbitrary: w)
     (simp_all add: apply_spot_ticks_Cons upsert_spot_price_eq spot_call_events_def)

lemma select_first_price_frame:
  "tick_queue (snd (select_first_price cs w)) = tick_queue w
   \<and> rows (snd (select_first_price cs w)) = rows w
   \<and> delay_stats (snd (select_first_price cs w)) = delay_stats w
   \<and> (\<exists>evs. trace (snd (select_first_price cs w)) = trace w @ evs
            \<and> set evs \<subseteq> (\<lambda>c. Execute (SelectPrice c)) ` set cs)"
proof (induction cs arbitrary: w)
  case Nil
  then show ?case by simp
next
  case (Cons c cs)
  let ?w1 = "w\<lparr>trace := trace w @ [Execute (SelectPrice c)]\<rparr>"
  from Cons.IH [of ?w1] obtain evs where
    ih: "tick_queue (snd (select_first_price cs ?w1)) = tick_queue w"
        "rows (snd (select_first_price cs ?w1)) = rows w"
        "delay_stats (snd (select_first_price cs ?w1)) = delay_stats w"
        "trace (snd (select_first_price cs ?w1)) = trace w @ Execute (SelectPrice c) # evs"
        "set evs \<subseteq> (\<lambda>c. Execute (SelectPrice c)) ` set cs"
    by auto
  have sub: "set (Execute (SelectPrice c) # evs) \<subseteq> (\<lambda>c. Execute (SelectPrice c)) ` set (c # cs)"
    using ih(5) by auto
  have one: "set [Execute (SelectPrice c)] \<subseteq> (\<lambda>c. Execute (SelectPrice c)) ` set (c # cs)"
    by simp
  show ?case
    using ih(1-4) sub one
    by (auto simp: Let_def split: option.splits)
qed


lemma reads_only_Nil [simp]: "reads_only []"
  by (simp add: reads_only_def)

lemma reads_only_append [simp]: "reads_only (xs @ ys) \<longleftrightarrow> reads_only xs \<and> reads_only ys"
  by (auto simp: reads_only_def)

lemma get_index_frame:
  "tick_queue (snd (get_index_price_and_symbol w)) = tick_queue w
   \<and> rows (snd (get_index_price_and_symbol w)) = rows w
   \<and> delay_stats (snd (get_index_price_and_symbol w)) = delay_stats w
   \<and> (\<exists>evs. trace (snd (get_index_price_and_symbol w)) = trace w @ evs \<and> reads_only evs)"
proof -
  let ?w0 = "w\<lparr>trace := trace w @ [Connect]\<rparr>"
  obtain res w1 where sel: "select_first_price [''NIFTY 50'', ''SENSEX''] ?w0 = (res, w1)"
    by (cases "select_first_price [''NIFTY 50'', ''SENSEX''] ?w0")
  from select_first_price_frame [of "[''NIFTY 50'', ''SENSEX'']" ?w0] sel
  obtain evs where f: "tick_queue w1 = tick_queue w" "rows w1 = rows w"
      "delay_stats w1 = delay_stats w" "trace w1 = trace w @ Connect # evs"
      "set evs \<subseteq> (\<lambda>c. Execute (SelectPrice c)) ` set [''NIFTY 50'', ''SENSEX'']"
    by auto
  have "reads_only (Connect # evs @ [Close])"
    using f(5) by (auto simp: reads_only_def)
  then show ?thesis
    using f(1-4) sel by (auto simp: get_index_price_and_symbol_def intro!: exI [of _ "Connect # evs @ [Close]"])
qed

lemma straddle_lookups_frame:
  "tick_queue (straddle_lookups ts w) = tick_queue w
   \<and> rows (straddle_lookups ts w) = rows w
   \<and> delay_stats (straddle_lookups ts w) = delay_stats w
   \<and> (\<exists>evs. trace (straddle_lookups ts w) = trace w @ evs \<and> reads_only evs)"
proof (induction ts arbitrary: w)
  case Nil
  then show ?case by (simp add: straddle_lookups_def)
next
  case (Cons t ts)
  let ?w1 = "snd (get_index_price_and_symbol w)"
  from get_index_frame [of w] obtain e1 where
    a: "tick_queue ?w1 = tick_queue w" "rows ?w1 = rows w" "delay_stats ?w1 = delay_stats w"
       "trace ?w1 = trace w @ e1" "reads_only e1" by auto
  from Cons.IH [of ?w1] obtain e2 where
    b: "tick_queue (straddle_lookups ts ?w1) = tick_queue ?w1"
       "rows (straddle_lookups ts ?w1) = rows ?w1"
       "delay_stats (straddle_lookups ts ?w1) = delay_stats ?w1"
       "trace (straddle_lookups ts ?w1) = trace ?w1 @ e2" "reads_only e2" by auto
  have st: "straddle_lookups (t # ts) w = straddle_lookups ts ?w1"
    by (simp add: straddle_lookups_def)
  have "trace (straddle_lookups (t # ts) w) = trace w @ (e1 @ e2) \<and> reads_only (e1 @ e2)"
    using a b st by simp
  then show ?case using a b st by (metis (no_types))
qed

section \<open>Delay statistics\<close>

lemma bound_le_refl [simp]: "bound_le b b"
  by (cases b) simp_all

lemma bound_le_trans: "bound_le a b \<Longrightarrow> bound_le b c \<Longrightarrow> bound_le a c"
  by (cases a; cases b; cases c) simp_all

lemma bound_min_le: "bound_le (bound_min b d) b"
  by (cases b) simp_all

lemma accumulates_refl [simp]: "accumulates st st"
  by (simp add: accumulates_def)

lemma accumulates_trans: "accumulates a b \<Longrightarrow> accumulates b c \<Longrightarrow> accumulates a c"
  by (auto simp: accumulates_def intro: bound_le_trans)

lemma record_delay_accumulates: "accumulates st (record_delay now t st)"
  by (simp add: record_delay_def update_delay_stats_def accumulates_def bound_min_le
      split: option.splits)

lemma fold_record_delay_accumulates: "accumulates st (fold (record_delay now) batch st)"
proof (induction batch arbitrary: st)
  case Nil
  then show ?case by simp
next
  case (Cons t batch)
  show ?case
    using record_delay_accumulates [of st now t] Cons.IH [of "record_delay now t st"]
    by (auto intro: accumulates_trans)
qed

lemma delay_stats_populate_entry:
  "delay_stats (populate_entry dir tsym ex entry w) = delay_stats w"
  by (simp add: populate_entry_def split: prod.splits option.splits)

lemma delay_stats_fold_populate:
  "delay_stats (fold (populate_entry dir tsym ex) es w) = delay_stats w"
  by (induction es arbitrary: w) (simp_all add: delay_stats_populate_entry)

lemma delay_stats_normal_cycle:
  "accumulates (delay_stats w) (delay_stats (snd (normal_cycle dir tsyms cpu now w)))"
  by (simp add: normal_cycle_def Let_def collect_batch_eq apply_zerodha_ticks_eq
      apply_spot_ticks_frame straddle_lookups_frame fold_record_delay_accumulates)

lemma delay_stats_iteration:
  "accumulates (delay_stats w) (delay_stats (snd (database_worker_iteration dir tsyms cpu now w)))"
  using delay_stats_normal_cycle [of w dir tsyms cpu now]
    delay_stats_normal_cycle [of "snd (emergency_drain 300 w)" dir tsyms cpu now]
  by (simp add: database_worker_iteration_def Let_def emergency_drain_eq apply_zerodha_ticks_eq
      apply_spot_ticks_frame emergency_def)

section \<open>A consumer pass over a short queue\<close>

lemma apply_spot_ticks_eq:
  "apply_spot_ticks dir now ss w =
     w\<lparr>rows := spot_rows dir now ss (rows w),
       trace := trace w @ concat (map spot_call_events ss)\<rparr>"
proof (induction ss arbitrary: w)
  case Nil
  then show ?case by (simp add: spot_rows_def)
next
  case (Cons s ss)
  show ?case
    by (simp add: apply_spot_ticks_Cons Cons.IH upsert_spot_price_eq spot_rows_def
        spot_call_events_def)
qed

lemma straddle_rows: "rows (straddle_lookups ts w) = rows w"
  using straddle_lookups_frame [of ts w] by simp

lemma straddle_queue: "tick_queue (straddle_lookups ts w) = tick_queue w"
  using straddle_lookups_frame [of ts w] by simp

lemma batch_size_ge: "25 \<le> get_adaptive_batch_size cpu n"
  by (simp add: get_adaptive_batch_size_def)

lemma resolve_contract:
  "tick_source e = ''zerodha'' \<Longrightarrow>
   tick_data e = \<lparr>tick_instrument_token = Some token, last_price = Some ltp, exchange_timestamp = ets\<rparr> \<Longrightarrow>
   token \<noteq> 0 \<Longrightarrow>
   find_spot (spot_instrument_tokens dir) trade_symbols token = None \<Longrightarrow>
   map_of (kite_instrument_mapping dir) token = Some kite_symbol \<Longrightarrow> kite_symbol \<noteq> [] \<Longrightarrow>
   resolve_tick dir trade_symbols e = Contract (kite_symbol, ltp, token, ets)"
  by (simp add: resolve_tick_def)

lemma normal_cycle_taken:
  assumes "tick_queue w \<noteq> []"
  shows "fst (normal_cycle dir tsyms cpu now w) = NormalCycle"
    and "tick_queue (snd (normal_cycle dir tsyms cpu now w)) =
           drop (get_adaptive_batch_size cpu (length (tick_queue w))) (tick_queue w)"
    and "rows (snd (normal_cycle dir tsyms cpu now w)) =
     (let resolved = map (resolve_tick dir tsyms)
                       (take (get_adaptive_batch_size cpu (length (tick_queue w))) (tick_queue w));
          tbl = spot_rows dir now (spot_ticks_of resolved) (rows w)
      in if zerodha_ticks_of resolved = [] then tbl
         else bulk_rows dir now (zerodha_ticks_of resolved) tbl)"
proof -
  have "0 < get_adaptive_batch_size cpu (length (tick_queue w))"
    using batch_size_ge [of cpu "length (tick_queue w)"] by simp
  then have t: "take (get_adaptive_batch_size cpu (length (tick_queue w))) (tick_queue w) \<noteq> []"
    using assms by simp
  show "fst (normal_cycle dir tsyms cpu now w) = NormalCycle"
    using t by (simp add: normal_cycle_def Let_def collect_batch_eq)
  show "tick_queue (snd (normal_cycle dir tsyms cpu now w)) =
           drop (get_adaptive_batch_size cpu (length (tick_queue w))) (tick_queue w)"
    using t by (simp add: normal_cycle_def Let_def collect_batch_eq straddle_queue
        apply_zerodha_ticks_eq apply_spot_ticks_eq)
  show "rows (snd (normal_cycle dir tsyms cpu now w)) =
     (let resolved = map (resolve_tick dir tsyms)
                       (take (get_adaptive_batch_size cpu (length (tick_queue w))) (tick_queue w));
          tbl = spot_rows dir now (spot_ticks_of resolved) (rows w)
      in if zerodha_ticks_of resolved = [] then tbl
         else bulk_rows dir now (zerodha_ticks_of resolved) tbl)"
    using t by (simp add: normal_cycle_def Let_def collect_batch_eq straddle_rows
        apply_zerodha_ticks_eq apply_spot_ticks_eq)
qed

lemma small_queue_pass:
  assumes ne: "tick_queue w \<noteq> []" and le: "length (tick_queue w) \<le> 25"
  shows "fst (database_worker_iteration dir tsyms cpu now w) = NormalCycle"
    and "tick_queue (snd (database_worker_iteration dir tsyms cpu now w)) = []"
    and "rows (snd (database_worker_iteration dir tsyms cpu now w)) =
     (let resolved = map (resolve_tick dir tsyms) (tick_queue w);
          tbl = spot_rows dir now (spot_ticks_of resolved) (rows w)
      in if zerodha_ticks_of resolved = [] then tbl
         else bulk_rows dir now (zerodha_ticks_of resolved) tbl)"
proof -
  let ?n = "get_adaptive_batch_size cpu (length (tick_queue w))"
  have n: "length (tick_queue w) \<le> ?n"
    using batch_size_ge [of cpu "length (tick_queue w)"] le by simp
  have it: "database_worker_iteration dir tsyms cpu now w = normal_cycle dir tsyms cpu now w"
    using le by (simp add: database_worker_iteration_def emergency_def)
  show "fst (database_worker_iteration dir tsyms cpu now w) = NormalCycle"
    unfolding it by (rule normal_cycle_taken(1) [OF ne])
  show "tick_queue (snd (database_worker_iteration dir tsyms cpu now w)) = []"
    unfolding it normal_cycle_taken(2) [OF ne] using n by simp
  show "rows (snd (database_worker_iteration dir tsyms cpu now w)) =
     (let resolved = map (resolve_tick dir tsyms) (tick_queue w);
          tbl = spot_rows dir now (spot_ticks_of resolved) (rows w)
      in if zerodha_ticks_of resolved = [] then tbl
         else bulk_rows dir now (zerodha_ticks_of resolved) tbl)"
    unfolding it normal_cycle_taken(3) [OF ne] using n by simp
qed

lemma sample_directory_fields:
  "kite_instrument_mapping sample_directory = [(101, ''NIFTY25000CE'')]"
  "kite_instrument_details sample_directory =
     [(''NIFTY25000CE'', \<lparr>det_strike = 25000, det_option_type = ''CE'', det_expiry = 20000,
                           det_trade_symbol = ''NIFTY''\<rparr>)]"
  "spot_instrument_tokens sample_directory = [(''NIFTY'', Some 256265)]"
  "nearest_expiry_dates sample_directory = [(''NIFTY'', 20000)]"
  by (simp_all add: sample_directory_def register_instrument_def empty_directory_def)

lemma sample_contract_tick:
  "resolve_tick sample_directory [''NIFTY''] (sample_tick 101 ltp ets) =
     Contract (''NIFTY25000CE'', ltp, 101, ets)"
  by (simp add: resolve_tick_def sample_tick_def sample_directory_fields)

lemma three_bulk_rows:
  "bulk_rows dir now [(k, p1, token, Some t1), (k, p2, token, Some t2), (k, p3, token, Some t3)]
     tbl k =
   Some ((case tbl k of None \<Rightarrow> null_row | Some r \<Rightarrow> r)
           \<lparr>price := Some p3, timestamp := Some (strftime_ms t3), zerodha_price := Some p3,
            zerodha_timestamp := Some (strftime_ms t3), expiry_date := per_symbol_expiry dir k\<rparr>)"
  by (cases "tbl k") (simp_all add: bulk_rows_def insert_bulk_def update_derived_def stamp_def)

text \<open>
  C5, as the code has it. Three ticks of one contract with prices 100, 101, 99 and
  increasing exchange timestamps, alone on the queue, are taken in one normal pass and
  written by one bulk call; afterwards the row of the contract has price 99 and, as its
  timestamp, the third exchange timestamp cut to whole milliseconds (which is the third
  exchange timestamp itself when that has no microseconds below the millisecond).
\<close>

theorem last_applied_wins:
  assumes src: "tick_source e1 = ''zerodha''" "tick_source e2 = ''zerodha''" "tick_source e3 = ''zerodha''"
    and d1: "tick_data e1 = \<lparr>tick_instrument_token = Some token, last_price = Some 100,
                              exchange_timestamp = Some t1\<rparr>"
    and d2: "tick_data e2 = \<lparr>tick_instrument_token = Some token, last_price = Some 101,
                              exchange_timestamp = Some t2\<rparr>"
    and d3: "tick_data e3 = \<lparr>tick_instrument_token = Some token, last_price = Some 99,
                              exchange_timestamp = Some t3\<rparr>"
    and ord: "t1 < t2" "t2 < t3"
    and tok: "token \<noteq> 0" "find_spot (spot_instrument_tokens dir) trade_symbols token = None"
    and sym: "map_of (kite_instrument_mapping dir) token = Some kite_symbol" "kite_symbol \<noteq> []"
    and q: "tick_queue w = [e1, e2, e3]"
  shows "fst (database_worker_iteration dir trade_symbols cpu now w) = NormalCycle
    \<and> tick_queue (snd (database_worker_iteration dir trade_symbols cpu now w)) = []
    \<and> map_option price
        (rows (snd (database_worker_iteration dir trade_symbols cpu now w)) kite_symbol)
        = Some (Some 99)
    \<and> map_option timestamp
        (rows (snd (database_worker_iteration dir trade_symbols cpu now w)) kite_symbol)
        = Some (Some (strftime_ms t3))
    \<and> (t3 mod 1000 = 0 \<longrightarrow>
        map_option timestamp
          (rows (snd (database_worker_iteration dir trade_symbols cpu now w)) kite_symbol)
          = Some (Some t3))"
proof -
  have r1: "resolve_tick dir trade_symbols e1 = Contract (kite_symbol, 100, token, Some t1)"
    using src(1) d1 tok sym by (rule resolve_contract)
  have r2: "resolve_tick dir trade_symbols e2 = Contract (kite_symbol, 101, token, Some t2)"
    using src(2) d2 tok sym by (rule resolve_contract)
  have r3: "resolve_tick dir trade_symbols e3 = Contract (kite_symbol, 99, token, Some t3)"
    using src(3) d3 tok sym by (rule resolve_contract)
  have ne: "tick_queue w \<noteq> []" and le: "length (tick_queue w) \<le> 25" using q by simp_all
  have rw: "rows (snd (database_worker_iteration dir trade_symbols cpu now w)) kite_symbol =
      bulk_rows dir now [(kite_symbol, 100, token, Some t1), (kite_symbol, 101, token, Some t2),
                         (kite_symbol, 99, token, Some t3)] (rows w) kite_symbol"
    unfolding small_queue_pass(3) [OF ne le] q
    by (simp add: r1 r2 r3 spot_rows_def)
  show ?thesis
    unfolding rw three_bulk_rows
    using small_queue_pass(1,2) [OF ne le, of dir trade_symbols cpu now]
    by (simp add: strftime_ms_def)
qed

theorem last_applied_wins_witness:
  "tick_source (sample_tick 101 100 (Some 1000)) = ''zerodha''
   \<and> (1000::nat) < 2000 \<and> (2000::nat) < 3000 \<and> (3000::nat) mod 1000 = 0
   \<and> find_spot (spot_instrument_tokens sample_directory) [''NIFTY''] 101 = None
   \<and> map_of (kite_instrument_mapping sample_directory) 101 = Some ''NIFTY25000CE''
   \<and> map_option price
       (rows (snd (database_worker_iteration sample_directory [''NIFTY''] 10 5000
                (empty_world\<lparr>tick_queue := [sample_tick 101 100 (Some 1000),
                    sample_tick 101 101 (Some 2000), sample_tick 101 99 (Some 3000)]\<rparr>)))
          ''NIFTY25000CE'') = Some (Some 99)
   \<and> map_option timestamp
       (rows (snd (database_worker_iteration sample_directory [''NIFTY''] 10 5000
                (empty_world\<lparr>tick_queue := [sample_tick 101 100 (Some 1000),
                    sample_tick 101 101 (Some 2000), sample_tick 101 99 (Some 3000)]\<rparr>)))
          ''NIFTY25000CE'') = Some (Some 3000)"
  using last_applied_wins [where ?e1.0 = "sample_tick 101 100 (Some 1000)"
      and ?e2.0 = "sample_tick 101 101 (Some 2000)" and ?e3.0 = "sample_tick 101 99 (Some 3000)"
      and token = 101 and ?t1.0 = 1000 and ?t2.0 = 2000 and ?t3.0 = 3000
      and dir = sample_directory and trade_symbols = "[''NIFTY'']"
      and kite_symbol = "''NIFTY25000CE''" and cpu = 10 and now = 5000
      and w = "empty_world\<lparr>tick_queue := [sample_tick 101 100 (Some 1000),
                    sample_tick 101 101 (Some 2000), sample_tick 101 99 (Some 3000)]\<rparr>"]
  by (simp add: sample_tick_def sample_directory_fields)

text \<open>
  C5 as stated fails on the timestamp: with a third exchange timestamp of 3500
  microseconds the row ends with price 99 and timestamp 3000.
\<close>

theorem last_applied_wins_counterexample:
  "map_option price
       (rows (snd (database_worker_iteration sample_directory [''NIFTY''] 10 5000
                (empty_world\<lparr>tick_queue := [sample_tick 101 100 (Some 1500),
                    sample_tick 101 101 (Some 2500), sample_tick 101 99 (Some 3500)]\<rparr>)))
          ''NIFTY25000CE'') = Some (Some 99)
   \<and> map_option timestamp
       (rows (snd (database_worker_iteration sample_directory [''NIFTY''] 10 5000
                (empty_world\<lparr>tick_queue := [sample_tick 101 100 (Some 1500),
                    sample_tick 101 101 (Some 2500), sample_tick 101 99 (Some 3500)]\<rparr>)))
          ''NIFTY25000CE'') = Some (Some 3000)
   \<and> exchange_timestamp (tick_data (sample_tick 101 99 (Some 3500))) = Some 3500"
proof -
  let ?w = "empty_world\<lparr>tick_queue := [sample_tick 101 100 (Some 1500),
                    sample_tick 101 101 (Some 2500), sample_tick 101 99 (Some 3500)]\<rparr>"
  have ne: "tick_queue ?w \<noteq> []" and le: "length (tick_queue ?w) \<le> 25" by simp_all
  have rw: "rows (snd (database_worker_iteration sample_directory [''NIFTY''] 10 5000 ?w))
              ''NIFTY25000CE'' =
      bulk_rows sample_directory 5000 [(''NIFTY25000CE'', 100, 101, Some 1500),
         (''NIFTY25000CE'', 101, 101, Some 2500), (''NIFTY25000CE'', 99, 101, Some 3500)]
         (rows ?w) ''NIFTY25000CE''"
    unfolding small_queue_pass(3) [OF ne le]
    by (simp add: sample_contract_tick spot_rows_def)
  show ?thesis
    unfolding rw three_bulk_rows
    by (simp add: strftime_ms_def sample_tick_def)
qed

section \<open>Bootstrap of the price table\<close>

lemma rows_populate_entry_other:
  "fst entry \<noteq> s \<Longrightarrow> rows (populate_entry dir tsym ex entry w) s = rows w s"
  by (auto simp: populate_entry_def insert_initial_def split: prod.splits option.splits)

lemma rows_fold_populate_other:
  "s \<notin> fst ` set es \<Longrightarrow> rows (fold (populate_entry dir tsym ex) es w) s = rows w s"
  by (induction es arbitrary: w) (auto simp: rows_populate_entry_other)

lemma rows_populate_entry_hit:
  "det_trade_symbol d = tsym \<Longrightarrow> find_token (kite_instrument_mapping dir) k = Some token \<Longrightarrow>
   token \<noteq> 0 \<Longrightarrow> rows w k = None \<Longrightarrow>
   rows (populate_entry dir tsym ex (k, d) w) k =
     Some (null_row\<lparr>trade_symbol := Some tsym, strike_price := Some (det_strike d),
                    option_type := Some (det_option_type d), instrument_token := Some token,
                    source := Some ''Initial'', expiry_date := Some ex\<rparr>)"
  by (simp add: populate_entry_def insert_initial_def)

lemma rows_fold_populate_hit:
  "distinct (map fst es) \<Longrightarrow> (k, d) \<in> set es \<Longrightarrow>
   det_trade_symbol d = tsym \<Longrightarrow> find_token (kite_instrument_mapping dir) k = Some token \<Longrightarrow>
   token \<noteq> 0 \<Longrightarrow> rows w k = None \<Longrightarrow>
   rows (fold (populate_entry dir tsym ex) es w) k =
     Some (null_row\<lparr>trade_symbol := Some tsym, strike_price := Some (det_strike d),
                    option_type := Some (det_option_type d), instrument_token := Some token,
                    source := Some ''Initial'', expiry_date := Some ex\<rparr>)"
proof (induction es arbitrary: w)
  case Nil
  then show ?case by simp
next
  case (Cons e es)
  show ?case
  proof (cases "e = (k, d)")
    case True
    then have "k \<notin> fst ` set es" using Cons.prems(1) by simp
    then show ?thesis
      using True Cons.prems by (simp add: rows_fold_populate_other rows_populate_entry_hit)
  next
    case False
    then have mem: "(k, d) \<in> set es" using Cons.prems(2) by simp
    then have "k \<in> fst ` set es" by force
    then have "fst e \<noteq> k" using Cons.prems(1) by auto
    then have "rows (populate_entry dir tsym ex e w) k = None"
      using Cons.prems(6) by (simp add: rows_populate_entry_other)
    moreover have "distinct (map fst es)" using Cons.prems(1) by simp
    ultimately show ?thesis
      using Cons.IH [of "populate_entry dir tsym ex e w"] mem Cons.prems(3-5) by simp
  qed
qed

text \<open>
  C4, as the code has it. After a \<open>populate_initial_instruments\<close> that returns, on an
  empty table, every entry of \<open>kite_instrument_details\<close> that belongs to the trade
  symbol and for whose symbol the first item of \<open>kite_instrument_mapping\<close> that names
  it carries a token other than 0 has a
  row: trade symbol, strike, option type and token of the entry, the nearest expiry of
  the trade symbol, source \<open>Initial\<close>, and every price column null.
\<close>

theorem populate_initial_rows:
  assumes ok: "populate_initial_instruments dir tsym conn w = Inr w'"
    and fresh: "rows w = Map.empty"
    and keys: "distinct (map fst (kite_instrument_details dir))"
    and entry: "(kite_symbol, d) \<in> set (kite_instrument_details dir)"
    and own: "det_trade_symbol d = tsym"
    and tok: "find_token (kite_instrument_mapping dir) kite_symbol = Some token" "token \<noteq> 0"
  shows "rows w' kite_symbol =
           Some (null_row\<lparr>trade_symbol := Some tsym, strike_price := Some (det_strike d),
                          option_type := Some (det_option_type d),
                          instrument_token := Some token, source := Some ''Initial'',
                          expiry_date := map_of (nearest_expiry_dates dir) tsym\<rparr>)
         \<and> map_of (nearest_expiry_dates dir) tsym \<noteq> None
         \<and> map_option source (rows w' kite_symbol) = Some (Some ''Initial'')
         \<and> map_option price (rows w' kite_symbol) = Some None"
proof -
  from ok obtain ex where ex: "map_of (nearest_expiry_dates dir) tsym = Some ex"
    by (auto simp: populate_initial_instruments_def split: option.splits)
  have w': "rows w' = rows (fold (populate_entry dir tsym ex) (kite_instrument_details dir)
                             (open_conn conn w))"
    using ok ex by (auto simp: populate_initial_instruments_def Let_def)
  have "rows (open_conn conn w) kite_symbol = None" using fresh by simp
  from rows_fold_populate_hit [OF keys entry own tok this, of ex]
  show ?thesis by (simp add: w' ex null_row_def)
qed

lemma clashing_directory_fields:
  "kite_instrument_mapping clashing_directory = [(5, ''B'')]"
  "kite_instrument_details clashing_directory =
     [(''A'', \<lparr>det_strike = 25000, det_option_type = ''CE'', det_expiry = 20000,
               det_trade_symbol = ''NIFTY''\<rparr>),
      (''B'', \<lparr>det_strike = 25100, det_option_type = ''PE'', det_expiry = 20000,
               det_trade_symbol = ''NIFTY''\<rparr>)]"
  "nearest_expiry_dates clashing_directory = [(''NIFTY'', 20000)]"
  by (simp_all add: clashing_directory_def register_instrument_def empty_directory_def)

lemma populate_clashing:
  "populate_initial_instruments clashing_directory ''NIFTY'' None empty_world =
     Inr (empty_world\<lparr>rows := [''B'' \<mapsto>
              null_row\<lparr>trade_symbol := Some ''NIFTY'', strike_price := Some 25100,
                       option_type := Some ''PE'', instrument_token := Some 5,
                       source := Some ''Initial'', expiry_date := Some 20000\<rparr>],
            trace := [Connect, Execute (InsertInitial ''B''), Commit, Close]\<rparr>)"
  by (simp add: clashing_directory_fields populate_initial_instruments_def Let_def
      populate_entry_def insert_initial_def empty_world_def open_conn_def close_conn_def)

text \<open>
  C4 as stated fails for an entry without a token: in the directory of two rows with one
  token, \<open>A\<close> belongs to NIFTY, the bootstrap returns, and the table has no row \<open>A\<close>.
\<close>

theorem populate_initial_rows_counterexample:
  "map_option det_trade_symbol (map_of (kite_instrument_details clashing_directory) ''A'')
     = Some ''NIFTY''
   \<and> rows empty_world = Map.empty
   \<and> \<not> isl (populate_initial_instruments clashing_directory ''NIFTY'' None empty_world)
   \<and> rows (projr (populate_initial_instruments clashing_directory ''NIFTY'' None empty_world)) ''A''
       = None"
  unfolding populate_clashing
  by (simp add: clashing_directory_fields empty_world_def)

lemma populate_sample:
  "populate_initial_instruments sample_directory ''NIFTY'' None empty_world =
     Inr (empty_world\<lparr>rows := [''NIFTY25000CE'' \<mapsto>
              null_row\<lparr>trade_symbol := Some ''NIFTY'', strike_price := Some 25000,
                       option_type := Some ''CE'', instrument_token := Some 101,
                       source := Some ''Initial'', expiry_date := Some 20000\<rparr>],
            trace := [Connect, Execute (InsertInitial ''NIFTY25000CE''), Commit, Close]\<rparr>)"
  by (simp add: sample_directory_fields populate_initial_instruments_def Let_def
      populate_entry_def insert_initial_def empty_world_def open_conn_def close_conn_def)

theorem populate_initial_rows_witness:
  "\<not> isl (populate_initial_instruments sample_directory ''NIFTY'' None empty_world)
   \<and> rows empty_world = Map.empty
   \<and> distinct (map fst (kite_instrument_details sample_directory))
   \<and> find_token (kite_instrument_mapping sample_directory) ''NIFTY25000CE'' = Some 101
   \<and> map_option source
        (rows (projr (populate_initial_instruments sample_directory ''NIFTY'' None empty_world))
           ''NIFTY25000CE'') = Some (Some ''Initial'')
   \<and> map_option price
        (rows (projr (populate_initial_instruments sample_directory ''NIFTY'' None empty_world))
           ''NIFTY25000CE'') = Some None"
proof -
  let ?w' = "empty_world\<lparr>rows := [''NIFTY25000CE'' \<mapsto>
              null_row\<lparr>trade_symbol := Some ''NIFTY'', strike_price := Some 25000,
                       option_type := Some ''CE'', instrument_token := Some 101,
                       source := Some ''Initial'', expiry_date := Some 20000\<rparr>],
            trace := [Connect, Execute (InsertInitial ''NIFTY25000CE''), Commit, Close]\<rparr>"
  let ?d = "\<lparr>det_strike = 25000, det_option_type = ''CE'', det_expiry = 20000,
             det_trade_symbol = ''NIFTY''\<rparr>"
  have fresh: "rows empty_world = Map.empty" by (simp add: empty_world_def)
  have keys: "distinct (map fst (kite_instrument_details sample_directory))"
    by (simp add: sample_directory_fields)
  have entry: "(''NIFTY25000CE'', ?d) \<in> set (kite_instrument_details sample_directory)"
    by (simp add: sample_directory_fields)
  have own: "det_trade_symbol ?d = ''NIFTY''" by simp
  have tok: "find_token (kite_instrument_mapping sample_directory) ''NIFTY25000CE'' = Some 101"
    by (simp add: sample_directory_fields)
  have nz: "(101::int) \<noteq> 0" by simp
  have r: "map_option source (rows ?w' ''NIFTY25000CE'') = Some (Some ''Initial'')
         \<and> map_option price (rows ?w' ''NIFTY25000CE'') = Some None"
    using populate_initial_rows [OF populate_sample fresh keys entry own tok nz] by blast
  have i: "\<not> isl (populate_initial_instruments sample_directory ''NIFTY'' None empty_world)"
    unfolding populate_sample by (rule sum.disc(2))
  have p: "projr (populate_initial_instruments sample_directory ''NIFTY'' None empty_world) = ?w'"
    unfolding populate_sample by (rule sum.sel(2))
  show ?thesis
    unfolding p using i fresh keys tok r by blast
qed

section \<open>Emergency mode\<close>

lemma emergency_pass:
  assumes deep: "2000 < length (tick_queue w)"
  shows "database_worker_iteration dir tsyms cpu now w =
     (EmergencyCycle,
      w\<lparr>tick_queue := drop 300 (tick_queue w),
        rows := (let resolved = map (resolve_tick dir tsyms) (take 300 (tick_queue w));
                     tbl = spot_rows dir now (spot_ticks_of resolved) (rows w)
                 in if zerodha_ticks_of resolved = [] then tbl
                    else bulk_rows dir now (zerodha_ticks_of resolved) tbl),
        trace := trace w @ replicate 300 GetNowait
                 @ concat (map spot_call_events
                     (spot_ticks_of (map (resolve_tick dir tsyms) (take 300 (tick_queue w)))))
                 @ bulk_call_events
                     (zerodha_ticks_of (map (resolve_tick dir tsyms) (take 300 (tick_queue w))))
                 @ [Commit]\<rparr>)"
proof -
  have ne: "take 300 (tick_queue w) \<noteq> []" using deep by auto
  have m: "min 300 (length (tick_queue w)) = 300" using deep by simp
  show ?thesis
    using deep ne
    by (simp add: database_worker_iteration_def emergency_def emergency_drain_eq m Let_def
        apply_spot_ticks_eq apply_zerodha_ticks_eq)
qed




section \<open>Spot ticks\<close>

lemma find_spot_first:
  "tsym0 \<in> set tsyms \<Longrightarrow> map_of toks tsym0 = Some (Some token) \<Longrightarrow>
   \<exists>tsym \<in> set tsyms. find_spot toks tsyms token = Some tsym
                      \<and> map_of toks tsym = Some (Some token)"
proof (induction tsyms)
  case Nil
  then show ?case by simp
next
  case (Cons a tsyms)
  show ?case
  proof (cases "map_of toks a = Some (Some token)")
    case True
    then show ?thesis by simp
  next
    case False
    then have "tsym0 \<in> set tsyms" using Cons.prems by auto
    from Cons.IH [OF this Cons.prems(2)] False show ?thesis
      by (auto split: option.splits)
  qed
qed

lemma resolve_spot:
  "tick_source t = ''zerodha'' \<Longrightarrow> tick_instrument_token (tick_data t) = Some token \<Longrightarrow>
   token \<noteq> 0 \<Longrightarrow> last_price (tick_data t) = Some ltp \<Longrightarrow>
   find_spot (spot_instrument_tokens dir) tsyms token = Some tsym \<Longrightarrow>
   resolve_tick dir tsyms t =
     Spot ((if tsym = ''NIFTY'' then ''NIFTY 50'' else ''SENSEX''), ltp,
           exchange_timestamp (tick_data t), tsym)"
  by (simp add: resolve_tick_def)

lemma spot_ticks_of_mem: "Spot x \<in> set rs \<Longrightarrow> x \<in> set (spot_ticks_of rs)"
proof (induction rs)
  case Nil
  then show ?case by simp
next
  case (Cons r rs)
  then show ?case by (cases r) auto
qed

lemma zerodha_ticks_of_mem: "z \<in> set (zerodha_ticks_of rs) \<Longrightarrow> Contract z \<in> set rs"
proof (induction rs)
  case Nil
  then show ?case by simp
next
  case (Cons r rs)
  then show ?case by (cases r) auto
qed

lemma timeout_events_only: "e \<in> set (timeout_events n len) \<Longrightarrow> \<exists>r. e = GetTimeout r"
  by (induction n arbitrary: len) (auto split: if_splits)

lemma spot_step_stamps:
  "spot_stamped (update_derived s (insert_spot s p ts tsym ''zerodha'' ex tbl)) s"
  by (auto simp: spot_stamped_def update_derived_def insert_spot_def split: option.splits)

lemma spot_step_keeps:
  "spot_stamped tbl s' \<Longrightarrow>
   spot_stamped (update_derived s (insert_spot s p ts tsym ''zerodha'' ex tbl)) s'"
  by (cases "s' = s")
     (auto simp: spot_stamped_def update_derived_def insert_spot_def split: option.splits)

lemma spot_rows_keeps: "spot_stamped tbl s \<Longrightarrow> spot_stamped (spot_rows dir now ss tbl) s"
  by (induction ss arbitrary: tbl) (simp_all add: spot_rows_def spot_step_keeps)

lemma spot_rows_stamps: "x \<in> set ss \<Longrightarrow> spot_stamped (spot_rows dir now ss tbl) (fst x)"
proof (induction ss arbitrary: tbl)
  case Nil
  then show ?case by simp
next
  case (Cons a ss)
  show ?case
  proof (cases "x = a")
    case True
    have "spot_stamped (spot_rows dir now ss
            (update_derived (fst a)
               (insert_spot (fst a) (Some (fst (snd a))) (stamp now (fst (snd (snd a))))
                  (snd (snd (snd a))) ''zerodha''
                  (map_of (nearest_expiry_dates dir) (snd (snd (snd a)))) tbl))) (fst a)"
      by (rule spot_rows_keeps) (rule spot_step_stamps)
    then show ?thesis using True by (simp add: spot_rows_def)
  next
    case False
    then have "x \<in> set ss" using Cons.prems by simp
    from Cons.IH [OF this] show ?thesis by (simp add: spot_rows_def)
  qed
qed

lemma insert_bulk_keeps: "spot_stamped tbl s \<Longrightarrow> spot_stamped (insert_bulk d tbl) s"
  by (cases "fst d = s")
     (auto simp: spot_stamped_def insert_bulk_def split: option.splits prod.splits)

lemma update_derived_keeps: "spot_stamped tbl s \<Longrightarrow> spot_stamped (update_derived k tbl) s"
  by (cases "k = s") (auto simp: spot_stamped_def update_derived_def split: option.splits)

lemma fold_insert_bulk_keeps:
  "spot_stamped tbl s \<Longrightarrow> spot_stamped (fold insert_bulk ds tbl) s"
  by (induction ds arbitrary: tbl) (simp_all add: insert_bulk_keeps)

lemma fold_update_derived_keeps:
  "spot_stamped tbl s \<Longrightarrow> spot_stamped (fold update_derived ks tbl) s"
  by (induction ks arbitrary: tbl) (simp_all add: update_derived_keeps)

lemma bulk_rows_keeps: "spot_stamped tbl s \<Longrightarrow> spot_stamped (bulk_rows dir now zs tbl) s"
  by (simp add: bulk_rows_def fold_insert_bulk_keeps fold_update_derived_keeps)

lemma straddle_trace:
  "\<exists>reads. reads_only reads \<and> trace (straddle_lookups ts w) = trace w @ reads"
  using straddle_lookups_frame [of ts w] by blast

lemma normal_cycle_trace:
  assumes ne: "tick_queue w \<noteq> []"
  shows "\<exists>reads. reads_only reads \<and>
     trace (snd (normal_cycle dir tsyms cpu now w)) =
       trace w
       @ timeout_events (get_adaptive_batch_size cpu (length (tick_queue w))) (length (tick_queue w))
       @ concat (map spot_call_events
           (spot_ticks_of (map (resolve_tick dir tsyms)
              (take (get_adaptive_batch_size cpu (length (tick_queue w))) (tick_queue w)))))
       @ bulk_call_events
           (zerodha_ticks_of (map (resolve_tick dir tsyms)
              (take (get_adaptive_batch_size cpu (length (tick_queue w))) (tick_queue w))))
       @ reads @ [Commit]"
proof -
  let ?n = "get_adaptive_batch_size cpu (length (tick_queue w))"
  let ?res = "map (resolve_tick dir tsyms) (take ?n (tick_queue w))"
  let ?w1 = "w\<lparr>tick_queue := drop ?n (tick_queue w),
               trace := trace w @ timeout_events ?n (length (tick_queue w))\<rparr>"
  let ?w2 = "?w1\<lparr>delay_stats := fold (record_delay now) (take ?n (tick_queue w)) (delay_stats ?w1)\<rparr>"
  let ?w4 = "apply_zerodha_ticks dir now (zerodha_ticks_of ?res)
               (apply_spot_ticks dir now (spot_ticks_of ?res) ?w2)"
  have "0 < ?n" using batch_size_ge [of cpu "length (tick_queue w)"] by simp
  then have t: "take ?n (tick_queue w) \<noteq> []" using ne by simp
  have nc: "snd (normal_cycle dir tsyms cpu now w) =
          (straddle_lookups tsyms ?w4)\<lparr>trace := trace (straddle_lookups tsyms ?w4) @ [Commit]\<rparr>"
    using t by (simp add: normal_cycle_def Let_def collect_batch_eq)
  have t4: "trace ?w4 = trace w @ timeout_events ?n (length (tick_queue w))
              @ concat (map spot_call_events (spot_ticks_of ?res))
              @ bulk_call_events (zerodha_ticks_of ?res)"
    by (simp add: apply_zerodha_ticks_eq apply_spot_ticks_eq)
  from straddle_trace [of tsyms ?w4] obtain reads where
    r: "reads_only reads" "trace (straddle_lookups tsyms ?w4) = trace ?w4 @ reads" by blast
  have "trace (snd (normal_cycle dir tsyms cpu now w)) =
          trace w @ timeout_events ?n (length (tick_queue w))
              @ concat (map spot_call_events (spot_ticks_of ?res))
              @ bulk_call_events (zerodha_ticks_of ?res) @ reads @ [Commit]"
    unfolding nc using r(2) t4 by simp
  then show ?thesis using r(1) by blast
qed

lemma pass_rows:
  assumes ne: "tick_queue w \<noteq> []"
  shows "rows (snd (database_worker_iteration dir tsyms cpu now w)) =
     (let resolved = map (resolve_tick dir tsyms)
                       (take (batch_cap cpu (length (tick_queue w))) (tick_queue w));
          tbl = spot_rows dir now (spot_ticks_of resolved) (rows w)
      in if zerodha_ticks_of resolved = [] then tbl
         else bulk_rows dir now (zerodha_ticks_of resolved) tbl)"
proof (cases "emergency (length (tick_queue w))")
  case True
  then have deep: "2000 < length (tick_queue w)" by (simp add: emergency_def)
  show ?thesis
    unfolding emergency_pass [OF deep] using True by (simp add: batch_cap_def)
next
  case False
  then have it: "database_worker_iteration dir tsyms cpu now w = normal_cycle dir tsyms cpu now w"
    by (simp add: database_worker_iteration_def)
  show ?thesis
    unfolding it normal_cycle_taken(3) [OF ne] using False by (simp add: batch_cap_def)
qed

lemma pass_trace:
  assumes ne: "tick_queue w \<noteq> []"
  shows "\<exists>pops reads.
     (\<forall>e \<in> set pops. e = GetNowait \<or> (\<exists>r. e = GetTimeout r)) \<and> reads_only reads \<and>
     trace (snd (database_worker_iteration dir tsyms cpu now w)) =
       trace w @ pops
       @ concat (map spot_call_events
           (spot_ticks_of (map (resolve_tick dir tsyms)
              (take (batch_cap cpu (length (tick_queue w))) (tick_queue w)))))
       @ bulk_call_events
           (zerodha_ticks_of (map (resolve_tick dir tsyms)
              (take (batch_cap cpu (length (tick_queue w))) (tick_queue w))))
       @ reads @ [Commit]"
proof (cases "emergency (length (tick_queue w))")
  case True
  then have deep: "2000 < length (tick_queue w)" by (simp add: emergency_def)
  have cap: "batch_cap cpu (length (tick_queue w)) = 300" using True by (simp add: batch_cap_def)
  have p: "\<forall>e \<in> set (replicate 300 GetNowait). e = GetNowait \<or> (\<exists>r. e = GetTimeout r)"
    by simp
  have "trace (snd (database_worker_iteration dir tsyms cpu now w)) =
       trace w @ replicate 300 GetNowait
       @ concat (map spot_call_events
           (spot_ticks_of (map (resolve_tick dir tsyms)
              (take (batch_cap cpu (length (tick_queue w))) (tick_queue w)))))
       @ bulk_call_events
           (zerodha_ticks_of (map (resolve_tick dir tsyms)
              (take (batch_cap cpu (length (tick_queue w))) (tick_queue w))))
       @ [] @ [Commit]"
    unfolding emergency_pass [OF deep] cap by simp
  then show ?thesis using p reads_only_Nil by blast
next
  case False
  then have it: "database_worker_iteration dir tsyms cpu now w = normal_cycle dir tsyms cpu now w"
    by (simp add: database_worker_iteration_def)
  have cap: "batch_cap cpu (length (tick_queue w)) =
               get_adaptive_batch_size cpu (length (tick_queue w))"
    using False by (simp add: batch_cap_def)
  have p: "\<forall>e \<in> set (timeout_events (get_adaptive_batch_size cpu (length (tick_queue w)))
                         (length (tick_queue w))). e = GetNowait \<or> (\<exists>r. e = GetTimeout r)"
    using timeout_events_only by blast
  from normal_cycle_trace [OF ne, of dir tsyms cpu now] obtain reads where
    "reads_only reads"
    "trace (snd (normal_cycle dir tsyms cpu now w)) =
       trace w
       @ timeout_events (get_adaptive_batch_size cpu (length (tick_queue w))) (length (tick_queue w))
       @ concat (map spot_call_events
           (spot_ticks_of (map (resolve_tick dir tsyms)
              (take (get_adaptive_batch_size cpu (length (tick_queue w))) (tick_queue w)))))
       @ bulk_call_events
           (zerodha_ticks_of (map (resolve_tick dir tsyms)
              (take (get_adaptive_batch_size cpu (length (tick_queue w))) (tick_queue w))))
       @ reads @ [Commit]"
    by blast
  then show ?thesis unfolding it cap using p by blast
qed

lemma spot_events_shape:
  "e \<in> set (concat (map spot_call_events ss)) \<Longrightarrow>
   e = Commit \<or> (\<exists>s. e = Execute (InsertSpot s)) \<or> (\<exists>s. e = Execute (UpdateDerived s))"
  by (auto simp: spot_call_events_def)

lemma bulk_events_shape:
  "e \<in> set (bulk_call_events zs) \<Longrightarrow>
   e = Commit \<or> e = ExecuteMany (map InsertBulk (map fst zs))
   \<or> e = ExecuteMany (map UpdateDerived (map fst zs))"
  by (auto simp: bulk_call_events_def split: if_splits)

lemma reads_shape:
  "reads_only reads \<Longrightarrow> e \<in> set reads \<Longrightarrow>
   e = Connect \<or> e = Close \<or> (\<exists>c. e = Execute (SelectPrice c))"
  by (auto simp: reads_only_def)

lemma resolve_contract_in_mapping:
  "resolve_tick dir tsyms t = Contract (s, p, k, e) \<Longrightarrow> (k, s) \<in> set (kite_instrument_mapping dir)"
  by (auto simp: resolve_tick_def split: if_splits option.splits prod.splits dest: map_of_SomeD)

text \<open>
  C7, as the code has it. Let a tick of the batch a pass takes carry a price and a non-zero token that is
  the spot token of one of the trade symbols of the consumer. Then the tick is
  classified as a spot tick of the first such trade symbol; the pass executes the spot
  insert for its spot symbol; after the pass the row of the spot symbol exists with
  \<open>trade_symbol\<close> and \<open>source\<close> set; the pass executes no statement of
  \<open>upsert_price\<close>; and every symbol the bulk insert is executed for is the contract
  symbol of another tick of the batch, so none is the spot symbol unless the directory
  maps a token to that very name.
\<close>

theorem spot_tick_takes_spot_path:
  assumes inb: "t \<in> set (take (batch_cap cpu (length (tick_queue w))) (tick_queue w))"
    and src: "tick_source t = ''zerodha''"
    and tk: "tick_instrument_token (tick_data t) = Some token" "token \<noteq> 0"
    and lp: "last_price (tick_data t) = Some ltp"
    and tracked: "tsym0 \<in> set trade_symbols"
      "map_of (spot_instrument_tokens dir) tsym0 = Some (Some token)"
  shows "\<exists>tsym \<in> set trade_symbols.
     map_of (spot_instrument_tokens dir) tsym = Some (Some token)
     \<and> (let spot_symbol = (if tsym = ''NIFTY'' then ''NIFTY 50'' else ''SENSEX'');
             batch = take (batch_cap cpu (length (tick_queue w))) (tick_queue w);
             w' = snd (database_worker_iteration dir trade_symbols cpu now w);
             new = drop (length (trace w)) (trace w')
         in resolve_tick dir trade_symbols t =
              Spot (spot_symbol, ltp, exchange_timestamp (tick_data t), tsym)
            \<and> Execute (InsertSpot spot_symbol) \<in> set new
            \<and> spot_stamped (rows w') spot_symbol
            \<and> (\<forall>s. Execute (InsertZerodha s) \<notin> set new \<and> Execute (InsertCommon s) \<notin> set new)
            \<and> (\<forall>ss s. ExecuteMany ss \<in> set new \<longrightarrow> InsertBulk s \<in> set ss \<longrightarrow>
                  (\<exists>t' \<in> set batch. t' \<noteq> t \<and>
                     (\<exists>p k e. resolve_tick dir trade_symbols t' = Contract (s, p, k, e))))
            \<and> (spot_symbol \<notin> snd ` set (kite_instrument_mapping dir) \<longrightarrow>
                  (\<forall>ss. ExecuteMany ss \<in> set new \<longrightarrow> InsertBulk spot_symbol \<notin> set ss)))"
proof -
  let ?batch = "take (batch_cap cpu (length (tick_queue w))) (tick_queue w)"
  let ?res = "map (resolve_tick dir trade_symbols) ?batch"
  let ?spots = "spot_ticks_of ?res"
  let ?zs = "zerodha_ticks_of ?res"
  let ?w' = "snd (database_worker_iteration dir trade_symbols cpu now w)"
  from inb have ne: "tick_queue w \<noteq> []" by auto
  from find_spot_first [OF tracked] obtain tsym where
    ts: "tsym \<in> set trade_symbols"
        "find_spot (spot_instrument_tokens dir) trade_symbols token = Some tsym"
        "map_of (spot_instrument_tokens dir) tsym = Some (Some token)"
    by blast
  let ?sp = "if tsym = ''NIFTY'' then ''NIFTY 50'' else ''SENSEX''"
  let ?x = "(?sp, ltp, exchange_timestamp (tick_data t), tsym)"
  have rs: "resolve_tick dir trade_symbols t = Spot ?x"
    using src tk lp ts(2) by (rule resolve_spot)
  have "Spot ?x \<in> set ?res" using inb rs by force
  then have xin: "?x \<in> set ?spots" by (rule spot_ticks_of_mem)
  from pass_trace [OF ne, of dir trade_symbols cpu now] obtain pops reads where
    pops: "\<forall>e \<in> set pops. e = GetNowait \<or> (\<exists>r. e = GetTimeout r)"
    and reads: "reads_only reads"
    and tr: "trace ?w' = trace w @ pops @ concat (map spot_call_events ?spots)
               @ bulk_call_events ?zs @ reads @ [Commit]"
    by blast
  have new: "drop (length (trace w)) (trace ?w') =
               pops @ concat (map spot_call_events ?spots) @ bulk_call_events ?zs
               @ reads @ [Commit]"
    unfolding tr by simp
  have shape: "\<And>e. e \<in> set (drop (length (trace w)) (trace ?w')) \<Longrightarrow>
      e = GetNowait \<or> (\<exists>r. e = GetTimeout r) \<or> e = Commit \<or> e = Connect \<or> e = Close
      \<or> (\<exists>s. e = Execute (InsertSpot s)) \<or> (\<exists>s. e = Execute (UpdateDerived s))
      \<or> (\<exists>c. e = Execute (SelectPrice c))
      \<or> (?zs \<noteq> [] \<and> (e = ExecuteMany (map InsertBulk (map fst ?zs))
                        \<or> e = ExecuteMany (map UpdateDerived (map fst ?zs))))"
  proof -
    fix e assume "e \<in> set (drop (length (trace w)) (trace ?w'))"
    then consider "e \<in> set pops" | "e \<in> set (concat (map spot_call_events ?spots))"
      | "e \<in> set (bulk_call_events ?zs)" | "e \<in> set reads" | "e = Commit"
      unfolding new by auto
    then show "e = GetNowait \<or> (\<exists>r. e = GetTimeout r) \<or> e = Commit \<or> e = Connect \<or> e = Close
      \<or> (\<exists>s. e = Execute (InsertSpot s)) \<or> (\<exists>s. e = Execute (UpdateDerived s))
      \<or> (\<exists>c. e = Execute (SelectPrice c))
      \<or> (?zs \<noteq> [] \<and> (e = ExecuteMany (map InsertBulk (map fst ?zs))
                        \<or> e = ExecuteMany (map UpdateDerived (map fst ?zs))))"
    proof cases
      case 1
      then show ?thesis using pops by blast
    next
      case 2
      from spot_events_shape [OF this] show ?thesis by blast
    next
      case 3
      then have "?zs \<noteq> []" by (auto simp: bulk_call_events_def)
      with bulk_events_shape [OF 3] show ?thesis by blast
    next
      case 4
      from reads_shape [OF reads this] show ?thesis by blast
    next
      case 5
      then show ?thesis by blast
    qed
  qed
  have a2: "Execute (InsertSpot ?sp) \<in> set (drop (length (trace w)) (trace ?w'))"
  proof -
    have "Execute (InsertSpot ?sp) \<in> set (spot_call_events ?x)"
      by (simp add: spot_call_events_def)
    then have "Execute (InsertSpot ?sp) \<in> set (concat (map spot_call_events ?spots))"
      using xin by auto
    then show ?thesis unfolding new by simp
  qed
  have a3: "spot_stamped (rows ?w') ?sp"
  proof -
    have "spot_stamped (spot_rows dir now ?spots (rows w)) (fst ?x)"
      using xin by (rule spot_rows_stamps)
    then have st: "spot_stamped (spot_rows dir now ?spots (rows w)) ?sp" by simp
    show ?thesis
      unfolding pass_rows [OF ne] Let_def
      using st bulk_rows_keeps [OF st] by (cases "?zs = []") simp_all
  qed
  have a4: "\<forall>s. Execute (InsertZerodha s) \<notin> set (drop (length (trace w)) (trace ?w'))
              \<and> Execute (InsertCommon s) \<notin> set (drop (length (trace w)) (trace ?w'))"
    using shape by fastforce
  have a5: "\<forall>ss s. ExecuteMany ss \<in> set (drop (length (trace w)) (trace ?w')) \<longrightarrow>
              InsertBulk s \<in> set ss \<longrightarrow>
              (\<exists>t' \<in> set ?batch. t' \<noteq> t \<and>
                 (\<exists>p k e. resolve_tick dir trade_symbols t' = Contract (s, p, k, e)))"
  proof (intro allI impI)
    fix ss s
    assume em: "ExecuteMany ss \<in> set (drop (length (trace w)) (trace ?w'))"
      and ib: "InsertBulk s \<in> set ss"
    from shape [OF em] have "ss = map InsertBulk (map fst ?zs) \<or> ss = map UpdateDerived (map fst ?zs)"
      by auto
    with ib have "InsertBulk s \<in> set (map InsertBulk (map fst ?zs))" by auto
    then obtain z where z: "z \<in> set ?zs" "fst z = s" by auto
    from zerodha_ticks_of_mem [OF z(1)] obtain t' where
      t': "t' \<in> set ?batch" "resolve_tick dir trade_symbols t' = Contract z" by auto
    have "t' \<noteq> t" using t'(2) rs by auto
    moreover obtain p k e where "z = (s, p, k, e)" using z(2) by (cases z) auto
    ultimately show "\<exists>t' \<in> set ?batch. t' \<noteq> t \<and>
                 (\<exists>p k e. resolve_tick dir trade_symbols t' = Contract (s, p, k, e))"
      using t' by blast
  qed
  have a6: "?sp \<notin> snd ` set (kite_instrument_mapping dir) \<longrightarrow>
              (\<forall>ss. ExecuteMany ss \<in> set (drop (length (trace w)) (trace ?w')) \<longrightarrow>
                    InsertBulk ?sp \<notin> set ss)"
  proof (intro impI allI notI)
    fix ss
    assume nin: "?sp \<notin> snd ` set (kite_instrument_mapping dir)"
      and em: "ExecuteMany ss \<in> set (drop (length (trace w)) (trace ?w'))"
      and ib: "InsertBulk ?sp \<in> set ss"
    from a5 em ib obtain t' p k e where
      "resolve_tick dir trade_symbols t' = Contract (?sp, p, k, e)" by blast
    from resolve_contract_in_mapping [OF this] have "?sp \<in> snd ` set (kite_instrument_mapping dir)"
      by force
    with nin show False by contradiction
  qed
  show ?thesis
    unfolding Let_def using ts(1,3) rs a2 a3 a4 a5 a6 by blast
qed

theorem spot_tick_takes_spot_path_witness:
  "sample_tick 256265 24800 (Some 1000)
     \<in> set (take (batch_cap 10 (length (tick_queue
                 (empty_world\<lparr>tick_queue := [sample_tick 256265 24800 (Some 1000)]\<rparr>))))
               (tick_queue (empty_world\<lparr>tick_queue := [sample_tick 256265 24800 (Some 1000)]\<rparr>)))
   \<and> map_of (spot_instrument_tokens sample_directory) ''NIFTY'' = Some (Some 256265)
   \<and> ''NIFTY 50'' \<notin> snd ` set (kite_instrument_mapping sample_directory)
   \<and> resolve_tick sample_directory [''NIFTY''] (sample_tick 256265 24800 (Some 1000))
       = Spot (''NIFTY 50'', 24800, Some 1000, ''NIFTY'')
   \<and> spot_stamped
        (rows (snd (database_worker_iteration sample_directory [''NIFTY''] 10 5000
                 (empty_world\<lparr>tick_queue := [sample_tick 256265 24800 (Some 1000)]\<rparr>))))
        ''NIFTY 50''
   \<and> ExecuteMany [InsertBulk ''NIFTY 50'']
        \<notin> set (drop (length (trace
                        (empty_world\<lparr>tick_queue := [sample_tick 256265 24800 (Some 1000)]\<rparr>)))
                      (trace (snd (database_worker_iteration sample_directory [''NIFTY''] 10 5000
                         (empty_world\<lparr>tick_queue := [sample_tick 256265 24800 (Some 1000)]\<rparr>)))))"
proof -
  let ?t = "sample_tick 256265 24800 (Some 1000)"
  let ?w = "empty_world\<lparr>tick_queue := [?t]\<rparr>"
  have inb: "?t \<in> set (take (batch_cap 10 (length (tick_queue ?w))) (tick_queue ?w))"
    by (simp add: batch_cap_def emergency_def get_adaptive_batch_size_def)
  have src: "tick_source ?t = ''zerodha''" by (simp add: sample_tick_def)
  have tk: "tick_instrument_token (tick_data ?t) = Some 256265" by (simp add: sample_tick_def)
  have nz: "(256265::int) \<noteq> 0" by simp
  have lp: "last_price (tick_data ?t) = Some 24800" by (simp add: sample_tick_def)
  have mem: "''NIFTY'' \<in> set [''NIFTY'']" by simp
  have tokn: "map_of (spot_instrument_tokens sample_directory) ''NIFTY'' = Some (Some 256265)"
    by (simp add: sample_directory_fields)
  have ets: "exchange_timestamp (tick_data ?t) = Some 1000" by (simp add: sample_tick_def)
  have nin: "''NIFTY 50'' \<notin> snd ` set (kite_instrument_mapping sample_directory)"
    by (simp add: sample_directory_fields)
  from spot_tick_takes_spot_path [OF inb src tk nz lp mem tokn, of 5000]
  have "resolve_tick sample_directory [''NIFTY''] ?t = Spot (''NIFTY 50'', 24800, Some 1000, ''NIFTY'')
        \<and> spot_stamped (rows (snd (database_worker_iteration sample_directory [''NIFTY''] 10 5000 ?w)))
             ''NIFTY 50''
        \<and> (''NIFTY 50'' \<notin> snd ` set (kite_instrument_mapping sample_directory) \<longrightarrow>
             (\<forall>ss. ExecuteMany ss
                   \<in> set (drop (length (trace ?w))
                           (trace (snd (database_worker_iteration sample_directory [''NIFTY'']
                                         10 5000 ?w))))
                 \<longrightarrow> InsertBulk ''NIFTY 50'' \<notin> set ss))"
    unfolding Let_def ets by simp
  then have "resolve_tick sample_directory [''NIFTY''] ?t = Spot (''NIFTY 50'', 24800, Some 1000, ''NIFTY'')"
    and "spot_stamped (rows (snd (database_worker_iteration sample_directory [''NIFTY''] 10 5000 ?w)))
             ''NIFTY 50''"
    and all: "\<forall>ss. ExecuteMany ss
                   \<in> set (drop (length (trace ?w))
                           (trace (snd (database_worker_iteration sample_directory [''NIFTY'']
                                         10 5000 ?w))))
                 \<longrightarrow> InsertBulk ''NIFTY 50'' \<notin> set ss"
    using nin by blast+
  moreover have "ExecuteMany [InsertBulk ''NIFTY 50'']
        \<notin> set (drop (length (trace ?w))
                   (trace (snd (database_worker_iteration sample_directory [''NIFTY''] 10 5000 ?w))))"
    using all by fastforce
  ultimately show ?thesis using inb tokn nin by blast
qed

lemma homonym_directory_fields:
  "kite_instrument_mapping homonym_directory = [(202, ''SENSEX'')]"
  "spot_instrument_tokens homonym_directory = [(''SENSEX'', Some 265)]"
  by (simp_all add: homonym_directory_def register_instrument_def empty_directory_def)

text \<open>
  C7 as stated fails on its last part: in the directory where a contract is named
  \<open>SENSEX\<close>, a pass over the SENSEX spot tick and a tick of that contract classifies
  the first as a spot tick and still executes the bulk insert for the symbol
  \<open>SENSEX\<close>.
\<close>

theorem spot_tick_takes_spot_path_counterexample:
  "map_of (spot_instrument_tokens homonym_directory) ''SENSEX'' = Some (Some 265)
   \<and> resolve_tick homonym_directory [''SENSEX''] (sample_tick 265 80000 (Some 1000))
       = Spot (''SENSEX'', 80000, Some 1000, ''SENSEX'')
   \<and> ExecuteMany [InsertBulk ''SENSEX'']
       \<in> set (trace (snd (database_worker_iteration homonym_directory [''SENSEX''] 10 5000
                 (empty_world\<lparr>tick_queue := [sample_tick 265 80000 (Some 1000),
                                               sample_tick 202 500 (Some 2000)]\<rparr>))))"
proof -
  let ?w = "empty_world\<lparr>tick_queue := [sample_tick 265 80000 (Some 1000),
                                        sample_tick 202 500 (Some 2000)]\<rparr>"
  have ne: "tick_queue ?w \<noteq> []" by simp
  have tk: "take (batch_cap 10 (length (tick_queue ?w))) (tick_queue ?w) =
              [sample_tick 265 80000 (Some 1000), sample_tick 202 500 (Some 2000)]"
    by (simp add: batch_cap_def emergency_def get_adaptive_batch_size_def)
  have r1: "resolve_tick homonym_directory [''SENSEX''] (sample_tick 265 80000 (Some 1000))
              = Spot (''SENSEX'', 80000, Some 1000, ''SENSEX'')"
    by (simp add: resolve_tick_def sample_tick_def homonym_directory_fields)
  have r2: "resolve_tick homonym_directory [''SENSEX''] (sample_tick 202 500 (Some 2000))
              = Contract (''SENSEX'', 500, 202, Some 2000)"
    by (simp add: resolve_tick_def sample_tick_def homonym_directory_fields)
  from pass_trace [OF ne, of homonym_directory "[''SENSEX'']" 10 5000] obtain pops reads where
    tr: "trace (snd (database_worker_iteration homonym_directory [''SENSEX''] 10 5000 ?w)) =
           trace ?w @ pops
           @ concat (map spot_call_events
               (spot_ticks_of (map (resolve_tick homonym_directory [''SENSEX''])
                  (take (batch_cap 10 (length (tick_queue ?w))) (tick_queue ?w)))))
           @ bulk_call_events
               (zerodha_ticks_of (map (resolve_tick homonym_directory [''SENSEX''])
                  (take (batch_cap 10 (length (tick_queue ?w))) (tick_queue ?w))))
           @ reads @ [Commit]"
    by blast
  have zs: "zerodha_ticks_of (map (resolve_tick homonym_directory [''SENSEX''])
                  (take (batch_cap 10 (length (tick_queue ?w))) (tick_queue ?w)))
              = [(''SENSEX'', 500, 202, Some 2000)]"
    unfolding tk by (simp add: r1 r2)
  have "ExecuteMany [InsertBulk ''SENSEX'']
          \<in> set (trace (snd (database_worker_iteration homonym_directory [''SENSEX''] 10 5000 ?w)))"
    unfolding tr zs by (simp add: bulk_call_events_def)
  then show ?thesis
    using r1 by (simp add: homonym_directory_fields)
qed

section \<open>Delay statistics over a pass\<close>

lemma delay_stats_pass:
  "delay_stats (snd (database_worker_iteration dir tsyms cpu now w)) =
     (if emergency (length (tick_queue w)) then delay_stats w
      else fold (record_delay now)
             (take (get_adaptive_batch_size cpu (length (tick_queue w))) (tick_queue w))
             (delay_stats w))"
proof (cases "emergency (length (tick_queue w))")
  case True
  then have deep: "2000 < length (tick_queue w)" by (simp add: emergency_def)
  show ?thesis
    unfolding emergency_pass [OF deep] using True by simp
next
  case False
  then have it: "database_worker_iteration dir tsyms cpu now w = normal_cycle dir tsyms cpu now w"
    by (simp add: database_worker_iteration_def)
  show ?thesis
    unfolding it using False
    by (simp add: normal_cycle_def Let_def collect_batch_eq apply_zerodha_ticks_eq
        apply_spot_ticks_eq straddle_lookups_frame)
qed

lemma record_delay_total:
  "(\<And>e. exchange_timestamp (tick_data t) = Some e \<Longrightarrow> e \<le> now) \<Longrightarrow>
   total_delay st \<le> total_delay (record_delay now t st)"
  by (auto simp: record_delay_def update_delay_stats_def delay_seconds_def split: option.splits)

lemma fold_record_delay_total:
  "(\<forall>t \<in> set batch. \<forall>e. exchange_timestamp (tick_data t) = Some e \<longrightarrow> e \<le> now) \<Longrightarrow>
   total_delay st \<le> total_delay (fold (record_delay now) batch st)"
proof (induction batch arbitrary: st)
  case Nil
  then show ?case by simp
next
  case (Cons t batch)
  have a: "total_delay st \<le> total_delay (record_delay now t st)"
    using Cons.prems by (intro record_delay_total) simp
  have b: "total_delay (record_delay now t st)
             \<le> total_delay (fold (record_delay now) batch (record_delay now t st))"
    using Cons.prems by (intro Cons.IH) simp
  show ?case using a b by simp
qed

lemma fold_record_delay_count:
  "count (fold (record_delay now) batch st) =
     count st + length (filter (\<lambda>t. tick_source t = ''zerodha''
                                      \<and> exchange_timestamp (tick_data t) \<noteq> None) batch)"
  by (induction batch arbitrary: st)
     (auto simp: record_delay_def update_delay_stats_def split: option.splits)

text \<open>
  C8, as the code has it. An update for a tick with an exchange timestamp adds one to
  \<open>count\<close>, does not raise \<open>min_delay\<close> and does not lower \<open>max_delay\<close>; it does
  not lower \<open>total_delay\<close> when the exchange timestamp is not later than the clock.
  A consumer pass does nothing to the statistics but these updates, one per tick of its
  batch that has an exchange timestamp, and none at all in an emergency pass: so over
  a pass the count, the minimum and the maximum only accumulate, and \<open>total_delay\<close>
  does not drop when no exchange timestamp of the batch is later than the clock. No
  store operation touches the statistics.
\<close>

theorem delay_stats_accumulate:
  "(tick_source t = ''zerodha'' \<and> exchange_timestamp (tick_data t) = Some ets \<longrightarrow>
      count (record_delay now t st) = count st + 1
      \<and> bound_le (min_delay (record_delay now t st)) (min_delay st)
      \<and> max_delay st \<le> max_delay (record_delay now t st)
      \<and> (ets \<le> now \<longrightarrow> total_delay st \<le> total_delay (record_delay now t st)))
   \<and> delay_stats (snd (database_worker_iteration dir trade_symbols cpu now w))
       = (if emergency (length (tick_queue w)) then delay_stats w
          else fold (record_delay now)
                 (take (get_adaptive_batch_size cpu (length (tick_queue w))) (tick_queue w))
                 (delay_stats w))
   \<and> accumulates (delay_stats w)
        (delay_stats (snd (database_worker_iteration dir trade_symbols cpu now w)))
   \<and> ((\<forall>t' \<in> set (take (get_adaptive_batch_size cpu (length (tick_queue w))) (tick_queue w)).
          \<forall>e. exchange_timestamp (tick_data t') = Some e \<longrightarrow> e \<le> now) \<longrightarrow>
        total_delay (delay_stats w)
          \<le> total_delay (delay_stats (snd (database_worker_iteration dir trade_symbols cpu now w))))
   \<and> delay_stats (upsert_price dir now k p tsym src conn tok ets' w) = delay_stats w
   \<and> delay_stats (upsert_spot_price dir now k p tsym' src conn ets' w) = delay_stats w
   \<and> delay_stats (case upsert_price_bulk dir now ks ps etss src conn w of
                     Inr w' \<Rightarrow> w' | Inl e \<Rightarrow> w) = delay_stats w
   \<and> delay_stats (case populate_initial_instruments dir tsym' conn w of
                     Inr w' \<Rightarrow> w' | Inl e \<Rightarrow> w) = delay_stats w"
proof (intro conjI impI)
  assume h: "tick_source t = ''zerodha'' \<and> exchange_timestamp (tick_data t) = Some ets"
  then have rd: "record_delay now t st = update_delay_stats (delay_seconds now ets) st"
    by (simp add: record_delay_def)
  show "count (record_delay now t st) = count st + 1"
    by (simp add: rd update_delay_stats_def)
  show "bound_le (min_delay (record_delay now t st)) (min_delay st)"
    by (simp add: rd update_delay_stats_def bound_min_le)
  show "max_delay st \<le> max_delay (record_delay now t st)"
    by (simp add: rd update_delay_stats_def)
  assume "ets \<le> now"
  then show "total_delay st \<le> total_delay (record_delay now t st)"
    by (simp add: rd update_delay_stats_def delay_seconds_def)
next
  show "delay_stats (snd (database_worker_iteration dir trade_symbols cpu now w))
       = (if emergency (length (tick_queue w)) then delay_stats w
          else fold (record_delay now)
                 (take (get_adaptive_batch_size cpu (length (tick_queue w))) (tick_queue w))
                 (delay_stats w))"
    by (rule delay_stats_pass)
  show "accumulates (delay_stats w)
        (delay_stats (snd (database_worker_iteration dir trade_symbols cpu now w)))"
    by (rule delay_stats_iteration)
  show "delay_stats (upsert_price dir now k p tsym src conn tok ets' w) = delay_stats w"
    by (simp add: upsert_price_def Let_def)
  show "delay_stats (upsert_spot_price dir now k p tsym' src conn ets' w) = delay_stats w"
    by (simp add: upsert_spot_price_def Let_def)
  show "delay_stats (case upsert_price_bulk dir now ks ps etss src conn w of
                     Inr w' \<Rightarrow> w' | Inl e \<Rightarrow> w) = delay_stats w"
    by (auto simp: upsert_price_bulk_def Let_def split: if_splits)
  show "delay_stats (case populate_initial_instruments dir tsym' conn w of
                     Inr w' \<Rightarrow> w' | Inl e \<Rightarrow> w) = delay_stats w"
    by (auto simp: populate_initial_instruments_def Let_def delay_stats_fold_populate
        split: option.splits)
next
  assume a: "\<forall>t' \<in> set (take (get_adaptive_batch_size cpu (length (tick_queue w))) (tick_queue w)).
          \<forall>e. exchange_timestamp (tick_data t') = Some e \<longrightarrow> e \<le> now"
  show "total_delay (delay_stats w)
          \<le> total_delay (delay_stats (snd (database_worker_iteration dir trade_symbols cpu now w)))"
    unfolding delay_stats_pass
    using fold_record_delay_total [OF a, of "delay_stats w"] by simp
qed

theorem delay_stats_accumulate_witness:
  "tick_source (sample_tick 101 100 (Some 1000000)) = ''zerodha''
   \<and> exchange_timestamp (tick_data (sample_tick 101 100 (Some 1000000))) = Some 1000000
   \<and> (1000000::nat) \<le> 3000000
   \<and> count (record_delay 3000000 (sample_tick 101 100 (Some 1000000)) initial_delay_stats) = 1
   \<and> 0 \<le> total_delay (record_delay 3000000 (sample_tick 101 100 (Some 1000000))
                    initial_delay_stats)
   \<and> take (get_adaptive_batch_size 10 (length (tick_queue
               (empty_world\<lparr>tick_queue := [sample_tick 101 100 (Some 1000000)]\<rparr>))))
        (tick_queue (empty_world\<lparr>tick_queue := [sample_tick 101 100 (Some 1000000)]\<rparr>))
       = [sample_tick 101 100 (Some 1000000)]
   \<and> 0 \<le> total_delay (delay_stats (snd (database_worker_iteration sample_directory [''NIFTY'']
              10 3000000 (empty_world\<lparr>tick_queue := [sample_tick 101 100 (Some 1000000)]\<rparr>))))"
proof -
  let ?t = "sample_tick 101 100 (Some 1000000)"
  let ?w = "empty_world\<lparr>tick_queue := [?t]\<rparr>"
  have h: "\<forall>t' \<in> set (take (get_adaptive_batch_size 10 (length (tick_queue ?w))) (tick_queue ?w)).
         \<forall>e. exchange_timestamp (tick_data t') = Some e \<longrightarrow> e \<le> 3000000"
    by (simp add: get_adaptive_batch_size_def sample_tick_def)
  have z: "total_delay (delay_stats ?w) = 0"
    by (simp add: empty_world_def initial_delay_stats_def)
  note inst = delay_stats_accumulate [where t = "?t" and ets = 1000000 and now = 3000000
      and st = initial_delay_stats and w = "?w" and dir = sample_directory
      and trade_symbols = "[''NIFTY'']" and cpu = 10]
  have s: "tick_source ?t = ''zerodha'' \<and> exchange_timestamp (tick_data ?t) = Some 1000000"
    by (simp add: sample_tick_def)
  have le: "(1000000::nat) \<le> 3000000" by simp
  from inst s le have a: "count (record_delay 3000000 ?t initial_delay_stats) = count initial_delay_stats + 1"
    and b: "total_delay initial_delay_stats \<le> total_delay (record_delay 3000000 ?t initial_delay_stats)"
    by blast+
  from inst h have c: "total_delay (delay_stats ?w)
      \<le> total_delay (delay_stats (snd (database_worker_iteration sample_directory [''NIFTY'']
              10 3000000 ?w)))"
    by blast
  have a': "count (record_delay 3000000 ?t initial_delay_stats) = 1"
    using a by (simp add: initial_delay_stats_def)
  have b': "0 \<le> total_delay (record_delay 3000000 ?t initial_delay_stats)"
    using b by (simp add: initial_delay_stats_def)
  have c': "0 \<le> total_delay (delay_stats (snd (database_worker_iteration sample_directory
              [''NIFTY''] 10 3000000 ?w)))"
    using c z by simp
  have tk: "take (get_adaptive_batch_size 10 (length (tick_queue ?w))) (tick_queue ?w) = [?t]"
    by (simp add: get_adaptive_batch_size_def)
  show ?thesis using s le a' b' tk c' by blast
qed

text \<open>
  C8 as stated fails for \<open>total_delay\<close>: an exchange timestamp two seconds ahead of
  the local clock gives a delay of -2 seconds, and the total drops below its old value.
\<close>

theorem delay_stats_accumulate_counterexample:
  "total_delay (record_delay 1000000 (sample_tick 101 100 (Some 3000000)) initial_delay_stats)
     < total_delay initial_delay_stats"
  by (simp add: record_delay_def sample_tick_def update_delay_stats_def delay_seconds_def
      initial_delay_stats_def)

end
